theory Spec2Isabelle
  imports Complex_Main "HOL-Library.List_Lexorder" "HOL-Library.Char_ord"
begin

section \<open>Python values\<close>

text \<open>
  The gateway passes request parameters, cached payloads and results around as Python
  dictionaries. A dictionary is an association list in insertion order (a Python
  \<^verbatim>\<open>dict\<close> keeps that order, and the order is what \<^verbatim>\<open>sort_keys\<close> is about); a
  well-formed one has distinct keys. Keys are strings, as in every dictionary the gateway
  builds. \<open>PBytes\<close> stands for the values \<^verbatim>\<open>json.dumps\<close> refuses. A \<^verbatim>\<open>str\<close> is an
  Isabelle string, one character per code point (code points below 256); times and
  \<^verbatim>\<open>float\<close>s are exact reals.
\<close>

datatype pyval =
    PNone
  | PBool bool
  | PInt int
  | PFloat real
  | PStr string
  | PBytes string
  | PList "pyval list"
  | PDict "(string \<times> pyval) list"

type_synonym pydict = "(string \<times> pyval) list"

text \<open>Exceptions: the classes the source tells apart, and one for every other
  subclass of \<^verbatim>\<open>Exception\<close>. Each carries the text \<^verbatim>\<open>str(e)\<close> gives (for the
  interpreter's own errors a short form of it).\<close>

datatype pyexn =
    TypeError string
  | AttributeError string
  | IndexError string
  | KeyError string
  | TimeoutException string
  | S3Error string string
  | PostgresError string
  | OtherException string

fun exc_str :: "pyexn \<Rightarrow> string" where
  "exc_str (TypeError m) = m"
| "exc_str (AttributeError m) = m"
| "exc_str (IndexError m) = m"
| "exc_str (KeyError m) = m"
| "exc_str (TimeoutException m) = m"
| "exc_str (S3Error code m) = m"
| "exc_str (PostgresError m) = m"
| "exc_str (OtherException m) = m"

text \<open>Truth value testing, as \<^verbatim>\<open>if x:\<close> does it.\<close>

fun truthy :: "pyval \<Rightarrow> bool" where
  "truthy PNone = False"
| "truthy (PBool b) = b"
| "truthy (PInt i) = (i \<noteq> 0)"
| "truthy (PFloat x) = (x \<noteq> 0)"
| "truthy (PStr s) = (s \<noteq> [])"
| "truthy (PBytes b) = (b \<noteq> [])"
| "truthy (PList xs) = (xs \<noteq> [])"
| "truthy (PDict kvs) = (kvs \<noteq> [])"

text \<open>\<^verbatim>\<open>d.get(k, default)\<close>, \<^verbatim>\<open>k in d\<close> and \<^verbatim>\<open>d[k] = v\<close> (an existing key keeps its
  place, a new one goes to the end).\<close>

definition dict_get :: "pydict \<Rightarrow> string \<Rightarrow> pyval \<Rightarrow> pyval" where
  "dict_get d k dflt = (case map_of d k of None \<Rightarrow> dflt | Some v \<Rightarrow> v)"

definition dict_has :: "pydict \<Rightarrow> string \<Rightarrow> bool" where
  "dict_has d k = (map_of d k \<noteq> None)"

fun dict_set :: "pydict \<Rightarrow> string \<Rightarrow> pyval \<Rightarrow> pydict" where
  "dict_set [] k v = [(k, v)]"
| "dict_set ((k', v') # d) k v = (if k' = k then (k, v) # d else (k', v') # dict_set d k v)"

section \<open>Runtime: library functions, settings and providers\<close>

text \<open>What the OpenAI client returns: the message content of each choice, and the token
  usage when the provider sent it.\<close>

record chat_completion =
  choices :: "pyval list"
  usage :: "(int \<times> int \<times> int) option"

text \<open>An \<^verbatim>\<open>httpx\<close> response: the status, what \<^verbatim>\<open>.json()\<close> gives (it raises on a body that
  is not JSON) and the raw body.\<close>

record http_response =
  status_code :: int
  json_body :: "pyexn + pyval"
  content :: string

text \<open>
  Everything the source uses and does not define is a field of the runtime: library
  functions (\<^verbatim>\<open>hashlib.sha256(..).hexdigest()\<close>, the \<^verbatim>\<open>repr\<close> of a float that
  \<^verbatim>\<open>json.dumps\<close> prints, \<^verbatim>\<open>str()\<close> of a value inside an f-string, \<^verbatim>\<open>base64.b64encode\<close>,
  the driver's decoding of a JSONB column), the settings of \<^verbatim>\<open>config.py\<close>, the context file
  of the text adapter, and the external providers, which answer a call with a response or
  an exception.
\<close>

record runtime =
  sha256_hexdigest :: "string \<Rightarrow> string"
  float_repr :: "real \<Rightarrow> string"
  py_str :: "pyval \<Rightarrow> string"
  b64encode :: "string \<Rightarrow> string"
  jsonb_decode :: "pyval \<Rightarrow> pyval"
  cache_enabled :: bool
  plugin_rate_limit_per_minute :: int
  flux_api_url :: string
  chatterbox_api_url :: string
  contexts :: "(string \<times> string) list"
  openai_create :: "pydict \<Rightarrow> pyexn + chat_completion"
  http_post :: "string \<Rightarrow> pydict \<Rightarrow> pyexn + http_response"
  http_get :: "string \<Rightarrow> pyexn + http_response"

section \<open>JSON serialisation\<close>

text \<open>Decimal digits of an \<^verbatim>\<open>int\<close>, as \<^verbatim>\<open>json.dumps\<close> and f-strings print it.\<close>

function dec_nat :: "nat \<Rightarrow> string" where
  "dec_nat n =
     (if n < 10 then [''0123456789'' ! n]
      else dec_nat (n div 10) @ [''0123456789'' ! (n mod 10)])"
  by pat_completeness auto
termination
  by (relation "measure id") auto

definition dec_int :: "int \<Rightarrow> string" where
  "dec_int i = (if i < 0 then CHR ''-'' # dec_nat (nat (- i)) else dec_nat (nat i))"

text \<open>
  \<^verbatim>\<open>json.encoder.py_encode_basestring_ascii\<close>: the quote and the backslash are escaped with
  a backslash, the control characters \<^verbatim>\<open>\b \f \n \r \t\<close> have their short form, printable
  ASCII stands for itself and every other character is \<^verbatim>\<open>\u00xx\<close> in lower-case
  hexadecimal.
\<close>

definition hex_digit :: "nat \<Rightarrow> char" where
  "hex_digit n = ''0123456789abcdef'' ! n"

definition escape_char :: "char \<Rightarrow> string" where
  "escape_char c =
     (if c = CHR 0x22 then [CHR 0x5C, CHR 0x22]
      else if c = CHR 0x5C then [CHR 0x5C, CHR 0x5C]
      else if c = CHR 0x08 then [CHR 0x5C, CHR ''b'']
      else if c = CHR 0x0C then [CHR 0x5C, CHR ''f'']
      else if c = CHR 0x0A then [CHR 0x5C, CHR ''n'']
      else if c = CHR 0x0D then [CHR 0x5C, CHR ''r'']
      else if c = CHR 0x09 then [CHR 0x5C, CHR ''t'']
      else if 0x20 \<le> (of_char c :: nat) \<and> (of_char c :: nat) \<le> 0x7E then [c]
      else [CHR 0x5C, CHR ''u'', CHR ''0'', CHR ''0'',
            hex_digit ((of_char c :: nat) div 16), hex_digit ((of_char c :: nat) mod 16)])"

definition encode_basestring_ascii :: "string \<Rightarrow> string" where
  "encode_basestring_ascii s = [CHR 0x22] @ concat (map escape_char s) @ [CHR 0x22]"

fun join_sep :: "string \<Rightarrow> string list \<Rightarrow> string" where
  "join_sep sep [] = []"
| "join_sep sep [x] = x"
| "join_sep sep (x # y # ys) = x @ sep @ join_sep sep (y # ys)"

text \<open>With \<^verbatim>\<open>sort_keys=True\<close> the encoder walks \<^verbatim>\<open>sorted(dct.items())\<close>: the keys of a
  dictionary are distinct, so the items are ordered by key.\<close>

definition dict_items :: "bool \<Rightarrow> (string \<times> 'v) list \<Rightarrow> (string \<times> 'v) list" where
  "dict_items sort_keys kvs = (if sort_keys then sort_key fst kvs else kvs)"

lemma set_dict_items [simp]: "set (dict_items sk kvs) = set kvs"
  by (simp add: dict_items_def)

fun json_serializable :: "pyval \<Rightarrow> bool" where
  "json_serializable (PBytes b) = False"
| "json_serializable (PList xs) = list_all json_serializable xs"
| "json_serializable (PDict kvs) = list_all (\<lambda>(k, v). json_serializable v) kvs"
| "json_serializable v = True"

text \<open>The text of a serialisable value, with the default separators \<^verbatim>\<open>', '\<close> and
  \<^verbatim>\<open>': '\<close>.\<close>

fun json_text :: "(real \<Rightarrow> string) \<Rightarrow> bool \<Rightarrow> pyval \<Rightarrow> string" where
  "json_text fr sk PNone = ''null''"
| "json_text fr sk (PBool b) = (if b then ''true'' else ''false'')"
| "json_text fr sk (PInt i) = dec_int i"
| "json_text fr sk (PFloat x) = fr x"
| "json_text fr sk (PStr s) = encode_basestring_ascii s"
| "json_text fr sk (PBytes b) = []"
| "json_text fr sk (PList xs) = ''['' @ join_sep '', '' (map (json_text fr sk) xs) @ '']''"
| "json_text fr sk (PDict kvs) =
     ''{'' @ join_sep '', ''
               (map (\<lambda>(k, v). encode_basestring_ascii k @ '': '' @ json_text fr sk v)
                    (dict_items sk kvs)) @ ''}''"

text \<open>\<^verbatim>\<open>json.dumps(v, sort_keys=sk)\<close>: a \<^verbatim>\<open>TypeError\<close> on a value it cannot serialise.\<close>

definition json_dumps :: "runtime \<Rightarrow> bool \<Rightarrow> pyval \<Rightarrow> pyexn + string" where
  "json_dumps rt sk v =
     (if json_serializable v then Inr (json_text (float_repr rt) sk v)
      else Inl (TypeError ''Object of type bytes is not JSON serializable''))"

section \<open>Fingerprint (cache\_manager.py, generate\_cache\_key)\<close>

definition generate_cache_key :: "runtime \<Rightarrow> pydict \<Rightarrow> string \<Rightarrow> pyexn + string" where
  "generate_cache_key rt request_data user_id =
     (let cache_data = PDict [(''request'', PDict request_data), (''user_id'', PStr user_id)]
      in case json_dumps rt True cache_data of
           Inl e \<Rightarrow> Inl e
         | Inr cache_str \<Rightarrow> Inr (sha256_hexdigest rt cache_str))"


section \<open>Structured cache store (database.py)\<close>

text \<open>
  One table \<^verbatim>\<open>cache_<plugin>\<close> per adapter, with the columns of \<^verbatim>\<open>create_plugin_table\<close>
  (the serial \<^verbatim>\<open>id\<close> apart, which no statement reads). A table is the list of its rows in
  insertion order. \<open>db_fault\<close> is what the pool or the connection raises when the store is
  not reachable, \<open>db_calls\<close> counts the calls that reach the driver, and \<open>now\<close> is the
  store's \<^verbatim>\<open>CURRENT_TIMESTAMP\<close>.
\<close>

record cache_row =
  row_cache_key :: string
  row_request_data :: pyval
  row_response_data :: pyval
  row_user_id :: string
  row_created_at :: real
  row_accessed_at :: real

record database =
  db_fault :: "pyexn option"
  tables :: "string \<rightharpoonup> cache_row list"
  db_calls :: nat

definition table_name_of :: "string \<Rightarrow> string" where
  "table_name_of plugin_name = ''cache_'' @ plugin_name"

definition undefined_table :: pyexn where
  "undefined_table = PostgresError ''relation does not exist''"

text \<open>Storing into a \<^verbatim>\<open>VARCHAR(n)\<close> column: a longer string is an error, unless the excess
  is spaces only, which are cut off.\<close>

definition pg_varchar :: "nat \<Rightarrow> string \<Rightarrow> pyexn + string" where
  "pg_varchar n s =
     (if length s \<le> n then Inr s
      else if list_all (\<lambda>c. c = CHR '' '') (drop n s) then Inr (take n s)
      else Inl (PostgresError ''value too long for type character varying''))"

text \<open>\<^verbatim>\<open>CREATE TABLE IF NOT EXISTS\<close>.\<close>

definition create_plugin_table :: "database \<Rightarrow> string \<Rightarrow> (pyexn + unit) \<times> database" where
  "create_plugin_table db plugin_name =
     (let db1 = db\<lparr>db_calls := db_calls db + 1\<rparr> in
      case db_fault db of
        Some e \<Rightarrow> (Inl e, db1)
      | None \<Rightarrow>
          (case tables db (table_name_of plugin_name) of
             None \<Rightarrow> (Inr (), db1\<lparr>tables := (tables db)(table_name_of plugin_name \<mapsto> [])\<rparr>)
           | Some rows \<Rightarrow> (Inr (), db1)))"

text \<open>
  \<^verbatim>\<open>UPDATE .. SET accessed_at = CURRENT_TIMESTAMP WHERE cache_key = $1 RETURNING response_data\<close>;
  \<^verbatim>\<open>fetchval\<close> gives the first returned value or \<^verbatim>\<open>None\<close>, and the method returns it when
  it is truthy.
\<close>

definition get_cache ::
  "runtime \<Rightarrow> real \<Rightarrow> database \<Rightarrow> string \<Rightarrow> string \<Rightarrow> (pyexn + pyval) \<times> database" where
  "get_cache rt now db plugin_name key =
     (let db1 = db\<lparr>db_calls := db_calls db + 1\<rparr> in
      case db_fault db of
        Some e \<Rightarrow> (Inl e, db1)
      | None \<Rightarrow>
          (case tables db (table_name_of plugin_name) of
             None \<Rightarrow> (Inl undefined_table, db1)
           | Some rows \<Rightarrow>
               (let rows' = map (\<lambda>r. if row_cache_key r = key
                                       then r\<lparr>row_accessed_at := now\<rparr> else r) rows;
                    returning = map row_response_data
                                  (filter (\<lambda>r. row_cache_key r = key) rows');
                    result = (case returning of [] \<Rightarrow> PNone | v # _ \<Rightarrow> jsonb_decode rt v)
                in (Inr (if truthy result then result else PNone),
                    db1\<lparr>tables := (tables db)(table_name_of plugin_name \<mapsto> rows')\<rparr>))))"

text \<open>
  \<^verbatim>\<open>INSERT .. (cache_key, request_data, response_data, user_id) VALUES ($1, $2, $3, $4)
  ON CONFLICT (cache_key) DO UPDATE SET response_data = $2, accessed_at = CURRENT_TIMESTAMP\<close>
  with the arguments \<^verbatim>\<open>cache_key, json.dumps(request_data), json.dumps(response_data),
  user_id\<close>: \<open>$2\<close> is the request document and \<open>$3\<close> the response document. A column holds
  the document itself.
\<close>

definition set_cache ::
  "runtime \<Rightarrow> real \<Rightarrow> database \<Rightarrow> string \<Rightarrow> string \<Rightarrow> pydict \<Rightarrow> pydict \<Rightarrow> string
     \<Rightarrow> (pyexn + unit) \<times> database" where
  "set_cache rt now db plugin_name key request_data response_data user_id =
     (let db1 = db\<lparr>db_calls := db_calls db + 1\<rparr> in
      case db_fault db of
        Some e \<Rightarrow> (Inl e, db1)
      | None \<Rightarrow>
      (case json_dumps rt False (PDict request_data) of
        Inl e \<Rightarrow> (Inl e, db1)
      | Inr text2 \<Rightarrow>
      (case json_dumps rt False (PDict response_data) of
        Inl e \<Rightarrow> (Inl e, db1)
      | Inr text3 \<Rightarrow>
      (case tables db (table_name_of plugin_name) of
        None \<Rightarrow> (Inl undefined_table, db1)
      | Some rows \<Rightarrow>
      (case pg_varchar 255 key of
        Inl e \<Rightarrow> (Inl e, db1)
      | Inr arg1 \<Rightarrow>
      (case pg_varchar 10 user_id of
        Inl e \<Rightarrow> (Inl e, db1)
      | Inr arg4 \<Rightarrow>
          (let arg2 = PDict request_data; arg3 = PDict response_data in
           if list_ex (\<lambda>r. row_cache_key r = arg1) rows
           then (Inr (),
                 db1\<lparr>tables := (tables db)(table_name_of plugin_name \<mapsto>
                   map (\<lambda>r. if row_cache_key r = arg1
                             then r\<lparr>row_response_data := arg2, row_accessed_at := now\<rparr>
                             else r) rows)\<rparr>)
           else (Inr (),
                 db1\<lparr>tables := (tables db)(table_name_of plugin_name \<mapsto>
                   rows @ [\<lparr>row_cache_key = arg1, row_request_data = arg2,
                            row_response_data = arg3, row_user_id = arg4,
                            row_created_at = now, row_accessed_at = now\<rparr>])\<rparr>))))))))"

text \<open>\<^verbatim>\<open>DELETE FROM .. WHERE user_id = $1\<close> when \<^verbatim>\<open>user_id\<close> is truthy, \<^verbatim>\<open>DELETE FROM ..\<close>
  otherwise (for \<^verbatim>\<open>None\<close> and for the empty string).\<close>

definition db_clear_plugin_cache ::
  "database \<Rightarrow> string \<Rightarrow> string option \<Rightarrow> (pyexn + unit) \<times> database" where
  "db_clear_plugin_cache db plugin_name user_id =
     (let db1 = db\<lparr>db_calls := db_calls db + 1\<rparr> in
      case db_fault db of
        Some e \<Rightarrow> (Inl e, db1)
      | None \<Rightarrow>
          (case tables db (table_name_of plugin_name) of
             None \<Rightarrow> (Inl undefined_table, db1)
           | Some rows \<Rightarrow>
               (case user_id of
                  Some u \<Rightarrow>
                    if u \<noteq> []
                    then (Inr (), db1\<lparr>tables := (tables db)(table_name_of plugin_name \<mapsto>
                                     filter (\<lambda>r. row_user_id r \<noteq> u) rows)\<rparr>)
                    else (Inr (), db1\<lparr>tables := (tables db)(table_name_of plugin_name \<mapsto> [])\<rparr>)
                | None \<Rightarrow>
                    (Inr (), db1\<lparr>tables := (tables db)(table_name_of plugin_name \<mapsto> [])\<rparr>))))"


section \<open>Blob cache store (minio\_client.py)\<close>

text \<open>
  One bucket \<^verbatim>\<open><plugin>-cache\<close> per adapter, mapping an object name to its bytes and
  content type. \<open>s3_fault\<close> is what the client raises when the store is not reachable
  (an \<open>S3Error\<close> or anything else), \<open>s3_calls\<close> counts the calls that reach the client.
\<close>

record minio =
  s3_fault :: "pyexn option"
  buckets :: "string \<rightharpoonup> (string \<rightharpoonup> string \<times> string)"
  s3_calls :: nat

definition bucket_name_of :: "string \<Rightarrow> string" where
  "bucket_name_of plugin_name = plugin_name @ ''-cache''"

fun is_S3Error :: "pyexn \<Rightarrow> bool" where
  "is_S3Error (S3Error code m) = True"
| "is_S3Error e = False"

text \<open>\<^verbatim>\<open>create_plugin_bucket\<close>: an \<open>S3Error\<close> is logged and raised again.\<close>

definition create_plugin_bucket :: "minio \<Rightarrow> string \<Rightarrow> (pyexn + unit) \<times> minio" where
  "create_plugin_bucket m plugin_name =
     (let m1 = m\<lparr>s3_calls := s3_calls m + 1\<rparr> in
      case s3_fault m of
        Some e \<Rightarrow> (Inl e, m1)
      | None \<Rightarrow>
          (case buckets m (bucket_name_of plugin_name) of
             None \<Rightarrow> (Inr (), m1\<lparr>buckets := (buckets m)(bucket_name_of plugin_name \<mapsto> Map.empty)\<rparr>)
           | Some objs \<Rightarrow> (Inr (), m1)))"

text \<open>\<^verbatim>\<open>get_file_cache\<close>: every \<open>S3Error\<close> (a missing key, a missing bucket, any other)
  gives \<^verbatim>\<open>None\<close>; another exception leaves the method.\<close>

definition minio_get_file_cache :: "minio \<Rightarrow> string \<Rightarrow> string \<Rightarrow> (pyexn + pyval) \<times> minio" where
  "minio_get_file_cache m plugin_name key =
     (let m1 = m\<lparr>s3_calls := s3_calls m + 1\<rparr> in
      case s3_fault m of
        Some e \<Rightarrow> (if is_S3Error e then (Inr PNone, m1) else (Inl e, m1))
      | None \<Rightarrow>
          (case buckets m (bucket_name_of plugin_name) of
             None \<Rightarrow> (Inr PNone, m1)
           | Some objs \<Rightarrow>
               (case objs key of
                  None \<Rightarrow> (Inr PNone, m1)
                | Some (file_data, content_type) \<Rightarrow> (Inr (PBytes file_data), m1))))"

text \<open>\<^verbatim>\<open>set_file_cache\<close>: an \<open>S3Error\<close> is logged and raised again.\<close>

definition minio_set_file_cache ::
  "minio \<Rightarrow> string \<Rightarrow> string \<Rightarrow> string \<Rightarrow> string \<Rightarrow> (pyexn + unit) \<times> minio" where
  "minio_set_file_cache m plugin_name key file_data content_type =
     (let m1 = m\<lparr>s3_calls := s3_calls m + 1\<rparr> in
      case s3_fault m of
        Some e \<Rightarrow> (Inl e, m1)
      | None \<Rightarrow>
          (case buckets m (bucket_name_of plugin_name) of
             None \<Rightarrow> (Inl (S3Error ''NoSuchBucket'' ''The specified bucket does not exist''), m1)
           | Some objs \<Rightarrow>
               (Inr (), m1\<lparr>buckets := (buckets m)(bucket_name_of plugin_name \<mapsto>
                                objs(key \<mapsto> (file_data, content_type)))\<rparr>)))"

text \<open>\<^verbatim>\<open>clear_plugin_cache\<close>: lists the bucket and removes every object; an \<open>S3Error\<close> is
  logged and swallowed.\<close>

definition minio_clear_plugin_cache :: "minio \<Rightarrow> string \<Rightarrow> (pyexn + unit) \<times> minio" where
  "minio_clear_plugin_cache m plugin_name =
     (let m1 = m\<lparr>s3_calls := s3_calls m + 1\<rparr> in
      case s3_fault m of
        Some e \<Rightarrow> (if is_S3Error e then (Inr (), m1) else (Inl e, m1))
      | None \<Rightarrow>
          (case buckets m (bucket_name_of plugin_name) of
             None \<Rightarrow> (Inr (), m1)
           | Some objs \<Rightarrow>
               (Inr (), m1\<lparr>buckets := (buckets m)(bucket_name_of plugin_name \<mapsto> Map.empty)\<rparr>)))"

text \<open>The objects of an adapter's bucket (none when the bucket does not exist).\<close>

definition blob_objects :: "minio \<Rightarrow> string \<Rightarrow> (string \<rightharpoonup> string \<times> string)" where
  "blob_objects m plugin_name =
     (case buckets m (bucket_name_of plugin_name) of None \<Rightarrow> Map.empty | Some objs \<Rightarrow> objs)"

section \<open>Process state\<close>

text \<open>The two stores, the rate limiter of each adapter (a dictionary from a user to the
  times of that user's admitted requests) and the number of calls made to the external
  providers. Log lines are not part of the state.\<close>

type_synonym rate_limiter = "string \<rightharpoonup> real list"

record world =
  pg :: database
  s3 :: minio
  chatgpt_rate_limiter :: rate_limiter
  flux_rate_limiter :: rate_limiter
  chatterbox_rate_limiter :: rate_limiter
  backend_calls :: nat

section \<open>Cache manager (cache\_manager.py)\<close>

text \<open>Each method either returns at once when caching is disabled, or runs the store
  call inside \<^verbatim>\<open>try .. except Exception\<close>, where an exception is logged and dropped.\<close>

definition get_text_cache ::
  "runtime \<Rightarrow> real \<Rightarrow> world \<Rightarrow> string \<Rightarrow> string \<Rightarrow> (pyexn + pyval) \<times> world" where
  "get_text_cache rt now w plugin_name key =
     (if \<not> cache_enabled rt then (Inr PNone, w)
      else case get_cache rt now (pg w) plugin_name key of
             (Inl e, db') \<Rightarrow> (Inr PNone, w\<lparr>pg := db'\<rparr>)
           | (Inr cached_data, db') \<Rightarrow>
               (Inr (if truthy cached_data then cached_data else PNone), w\<lparr>pg := db'\<rparr>))"

definition set_text_cache ::
  "runtime \<Rightarrow> real \<Rightarrow> world \<Rightarrow> string \<Rightarrow> string \<Rightarrow> pydict \<Rightarrow> pydict \<Rightarrow> string
     \<Rightarrow> (pyexn + unit) \<times> world" where
  "set_text_cache rt now w plugin_name key request_data response_data user_id =
     (if \<not> cache_enabled rt then (Inr (), w)
      else case set_cache rt now (pg w) plugin_name key request_data response_data user_id of
             (Inl e, db') \<Rightarrow> (Inr (), w\<lparr>pg := db'\<rparr>)
           | (Inr u, db') \<Rightarrow> (Inr (), w\<lparr>pg := db'\<rparr>))"

definition get_file_cache ::
  "runtime \<Rightarrow> world \<Rightarrow> string \<Rightarrow> string \<Rightarrow> (pyexn + pyval) \<times> world" where
  "get_file_cache rt w plugin_name key =
     (if \<not> cache_enabled rt then (Inr PNone, w)
      else case minio_get_file_cache (s3 w) plugin_name key of
             (Inl e, m') \<Rightarrow> (Inr PNone, w\<lparr>s3 := m'\<rparr>)
           | (Inr cached_file, m') \<Rightarrow>
               (Inr (if truthy cached_file then cached_file else PNone), w\<lparr>s3 := m'\<rparr>))"

definition set_file_cache ::
  "runtime \<Rightarrow> world \<Rightarrow> string \<Rightarrow> string \<Rightarrow> string \<Rightarrow> string \<Rightarrow> (pyexn + unit) \<times> world" where
  "set_file_cache rt w plugin_name key file_data content_type =
     (if \<not> cache_enabled rt then (Inr (), w)
      else case minio_set_file_cache (s3 w) plugin_name key file_data content_type of
             (Inl e, m') \<Rightarrow> (Inr (), w\<lparr>s3 := m'\<rparr>)
           | (Inr u, m') \<Rightarrow> (Inr (), w\<lparr>s3 := m'\<rparr>))"

text \<open>\<^verbatim>\<open>clear_plugin_cache\<close>: the structured store first, then the blob store when no
  (truthy) user is given; an exception of either ends the method, logged and dropped.\<close>

definition clear_plugin_cache ::
  "world \<Rightarrow> string \<Rightarrow> string option \<Rightarrow> (pyexn + unit) \<times> world" where
  "clear_plugin_cache w plugin_name user_id =
     (case db_clear_plugin_cache (pg w) plugin_name user_id of
        (Inl e, db') \<Rightarrow> (Inr (), w\<lparr>pg := db'\<rparr>)
      | (Inr u, db') \<Rightarrow>
          (if user_id = None \<or> user_id = Some []
           then (case minio_clear_plugin_cache (s3 w) plugin_name of
                   (r, m') \<Rightarrow> (Inr (), w\<lparr>pg := db', s3 := m'\<rparr>))
           else (Inr (), w\<lparr>pg := db'\<rparr>)))"

section \<open>Rate limiter (check\_rate\_limit of each adapter)\<close>

text \<open>The three adapters share the code and differ in the threshold: the setting
  \<^verbatim>\<open>plugin_rate_limit_per_minute\<close> for the text adapter, 5 for images, 10 for speech.\<close>

definition check_rate_limit ::
  "int \<Rightarrow> real \<Rightarrow> rate_limiter \<Rightarrow> string \<Rightarrow> bool \<times> rate_limiter" where
  "check_rate_limit limit current_time limiter user_id =
     (let minute_window = current_time - 60;
          recorded = (case limiter user_id of None \<Rightarrow> [] | Some ts \<Rightarrow> ts);
          kept = filter (\<lambda>req_time. req_time > minute_window) recorded
      in if int (length kept) \<ge> limit then (False, limiter(user_id \<mapsto> kept))
         else (True, limiter(user_id \<mapsto> kept @ [current_time])))"

definition chatgpt_check_rate_limit :: "runtime \<Rightarrow> real \<Rightarrow> world \<Rightarrow> string \<Rightarrow> bool \<times> world" where
  "chatgpt_check_rate_limit rt current_time w user_id =
     (case check_rate_limit (plugin_rate_limit_per_minute rt) current_time
             (chatgpt_rate_limiter w) user_id of
        (ok, limiter') \<Rightarrow> (ok, w\<lparr>chatgpt_rate_limiter := limiter'\<rparr>))"

definition flux_check_rate_limit :: "real \<Rightarrow> world \<Rightarrow> string \<Rightarrow> bool \<times> world" where
  "flux_check_rate_limit current_time w user_id =
     (case check_rate_limit 5 current_time (flux_rate_limiter w) user_id of
        (ok, limiter') \<Rightarrow> (ok, w\<lparr>flux_rate_limiter := limiter'\<rparr>))"

definition chatterbox_check_rate_limit :: "real \<Rightarrow> world \<Rightarrow> string \<Rightarrow> bool \<times> world" where
  "chatterbox_check_rate_limit current_time w user_id =
     (case check_rate_limit 10 current_time (chatterbox_rate_limiter w) user_id of
        (ok, limiter') \<Rightarrow> (ok, w\<lparr>chatterbox_rate_limiter := limiter'\<rparr>))"

text \<open>The times recorded for a user, and a run of admission checks at successive
  times.\<close>

definition recorded_times :: "rate_limiter \<Rightarrow> string \<Rightarrow> real list" where
  "recorded_times limiter user_id = (case limiter user_id of None \<Rightarrow> [] | Some ts \<Rightarrow> ts)"

fun check_rate_limit_seq ::
  "int \<Rightarrow> rate_limiter \<Rightarrow> string \<Rightarrow> real list \<Rightarrow> bool list \<times> rate_limiter" where
  "check_rate_limit_seq limit limiter user_id [] = ([], limiter)"
| "check_rate_limit_seq limit limiter user_id (t # ts) =
     (case check_rate_limit limit t limiter user_id of
        (ok, limiter') \<Rightarrow>
          (case check_rate_limit_seq limit limiter' user_id ts of
             (oks, limiter'') \<Rightarrow> (ok # oks, limiter'')))"

text \<open>The admission check in the words of the specification: drop the recorded
  timestamps older than \<open>now - 60\<close>, admit iff the remaining count is below the threshold,
  record \<open>now\<close> when admitted.\<close>

definition spec_admit :: "int \<Rightarrow> real \<Rightarrow> rate_limiter \<Rightarrow> string \<Rightarrow> bool \<times> rate_limiter" where
  "spec_admit threshold now limiter key =
     (let remaining = filter (\<lambda>t. \<not> t < now - 60) (recorded_times limiter key)
      in if int (length remaining) < threshold
         then (True, limiter(key \<mapsto> remaining @ [now]))
         else (False, limiter(key \<mapsto> remaining)))"

section \<open>Helpers of the adapters\<close>

text \<open>The error result every adapter builds.\<close>

definition error_result :: "string \<Rightarrow> string \<Rightarrow> pydict" where
  "error_result msg error_type =
     [(''error'', PStr msg), (''error_type'', PStr error_type), (''from_cache'', PBool False)]"

text \<open>A value inside an f-string: a \<^verbatim>\<open>str\<close> is itself, an \<^verbatim>\<open>int\<close> its digits.\<close>

definition format_value :: "runtime \<Rightarrow> pyval \<Rightarrow> string" where
  "format_value rt v = (case v of PStr s \<Rightarrow> s | PInt i \<Rightarrow> dec_int i | _ \<Rightarrow> py_str rt v)"

text \<open>\<^verbatim>\<open>s.replace(old, new)\<close> for a non-empty \<open>old\<close> (both uses have one).\<close>

function str_replace :: "string \<Rightarrow> string \<Rightarrow> string \<Rightarrow> string" where
  "str_replace old new [] = []"
| "str_replace old new (c # cs) =
     (if old \<noteq> [] \<and> take (length old) (c # cs) = old
      then new @ str_replace old new (drop (length old) (c # cs))
      else c # str_replace old new cs)"
  by pat_completeness auto
termination
  by (relation "measure (\<lambda>(old, new, s). length s)") auto

text \<open>\<^verbatim>\<open>x[k] = v\<close>, \<^verbatim>\<open>k in x\<close> and \<^verbatim>\<open>x[k]\<close> for a string \<open>k\<close> and any value \<open>x\<close>.\<close>

fun py_setitem :: "pyval \<Rightarrow> string \<Rightarrow> pyval \<Rightarrow> pyexn + pyval" where
  "py_setitem (PDict d) k v = Inr (PDict (dict_set d k v))"
| "py_setitem (PList xs) k v = Inl (TypeError ''list indices must be integers or slices, not str'')"
| "py_setitem x k v = Inl (TypeError ''object does not support item assignment'')"

fun is_substring :: "string \<Rightarrow> string \<Rightarrow> bool" where
  "is_substring k [] = (k = [])"
| "is_substring k (c # cs) = (take (length k) (c # cs) = k \<or> is_substring k cs)"

fun py_contains :: "pyval \<Rightarrow> string \<Rightarrow> pyexn + bool" where
  "py_contains (PDict d) k = Inr (dict_has d k)"
| "py_contains (PList xs) k = Inr (list_ex (\<lambda>x. x = PStr k) xs)"
| "py_contains (PStr s) k = Inr (is_substring k s)"
| "py_contains x k = Inl (TypeError ''argument is not iterable'')"

fun py_getitem :: "pyval \<Rightarrow> string \<Rightarrow> pyexn + pyval" where
  "py_getitem (PDict d) k = (case map_of d k of None \<Rightarrow> Inl (KeyError k) | Some v \<Rightarrow> Inr v)"
| "py_getitem (PList xs) k = Inl (TypeError ''list indices must be integers or slices, not str'')"
| "py_getitem (PStr s) k = Inl (TypeError ''string indices must be integers, not str'')"
| "py_getitem x k = Inl (TypeError ''object is not subscriptable'')"

text \<open>\<^verbatim>\<open>x.get(k, default)\<close> for any value \<open>x\<close>: only a dictionary has the method.\<close>

fun py_get :: "pyval \<Rightarrow> string \<Rightarrow> pyval \<Rightarrow> pyexn + pyval" where
  "py_get (PDict d) k dflt = Inr (dict_get d k dflt)"
| "py_get x k dflt = Inl (AttributeError ''object has no attribute get'')"

text \<open>\<^verbatim>\<open>max(0.0, min(2.0, x))\<close>: \<^verbatim>\<open>min\<close> keeps \<open>2.0\<close> unless \<open>x < 2.0\<close>, \<^verbatim>\<open>max\<close> keeps \<open>0.0\<close>
  unless the minimum is greater; comparing a float with anything but a number is a
  \<open>TypeError\<close>.\<close>

fun py_num :: "pyval \<Rightarrow> real option" where
  "py_num (PInt i) = Some (of_int i)"
| "py_num (PFloat x) = Some x"
| "py_num (PBool b) = Some (if b then 1 else 0)"
| "py_num v = None"

definition clamp_exaggeration :: "pyval \<Rightarrow> pyexn + pyval" where
  "clamp_exaggeration x =
     (case py_num x of
        None \<Rightarrow> Inl (TypeError ''< not supported between these instances'')
      | Some r \<Rightarrow>
          (if r < 2 then (if r > 0 then Inr x else Inr (PFloat 0)) else Inr (PFloat 2)))"

section \<open>Text adapter (plugin\_chatgpt.py)\<close>

text \<open>\<^verbatim>\<open>self.contexts.get(context_name, self.contexts.get("text", ""))\<close>: a list or a
  dictionary is not hashable; a key that is not a string is in no context file.\<close>

definition lookup_context :: "runtime \<Rightarrow> pyval \<Rightarrow> pyexn + string" where
  "lookup_context rt context_name =
     (let dflt = (case map_of (contexts rt) ''text'' of None \<Rightarrow> [] | Some t \<Rightarrow> t) in
      case context_name of
        PList xs \<Rightarrow> Inl (TypeError ''unhashable type: list'')
      | PDict d \<Rightarrow> Inl (TypeError ''unhashable type: dict'')
      | PStr c \<Rightarrow> Inr (case map_of (contexts rt) c of None \<Rightarrow> dflt | Some t \<Rightarrow> t)
      | _ \<Rightarrow> Inr dflt)"

definition chatgpt_context_text :: "runtime \<Rightarrow> pydict \<Rightarrow> pyexn + string" where
  "chatgpt_context_text rt request_data =
     (case lookup_context rt (dict_get request_data ''context'' (PStr ''text'')) of
        Inl e \<Rightarrow> Inl e
      | Inr context_text \<Rightarrow>
          (case dict_get request_data ''from_lang'' (PStr ''English'') of
             PStr from_lang \<Rightarrow>
               (case dict_get request_data ''to_lang'' (PStr ''Persian'') of
                  PStr to_lang \<Rightarrow>
                    Inr (str_replace ''to_lang'' to_lang
                           (str_replace ''from_lang'' from_lang context_text))
                | _ \<Rightarrow> Inl (TypeError ''replace() argument 2 must be str''))
           | _ \<Rightarrow> Inl (TypeError ''replace() argument 2 must be str'')))"

text \<open>The messages of the call, or the validation error the adapter returns instead
  (\<open>Inr (Inl result)\<close>).\<close>

definition chatgpt_messages :: "runtime \<Rightarrow> pydict \<Rightarrow> pyexn + (pyval + pyval list)" where
  "chatgpt_messages rt request_data =
     (let context_name = dict_get request_data ''context'' (PStr ''text'') in
      case chatgpt_context_text rt request_data of
        Inl e \<Rightarrow> Inl e
      | Inr context_text \<Rightarrow>
          (let system = PDict [(''role'', PStr ''system''), (''content'', PStr context_text)] in
           if context_name = PStr ''imagecsv''
           then (if dict_has request_data ''image_data''
                 then Inr (Inr [system,
                        PDict [(''role'', PStr ''user''),
                               (''content'', PList
                                  [PDict [(''type'', PStr ''text''),
                                          (''text'', dict_get request_data ''prompt''
                                                       (PStr ''Analyze this image''))],
                                   PDict [(''type'', PStr ''image_url''),
                                          (''image_url'',
                                             PDict [(''url'', dict_get request_data ''image_data'' PNone)])]])]])
                 else Inr (Inl (PDict (error_result ''Image data required for imagecsv context''
                                         ''missing_image''))))
           else (let user_prompt = dict_get request_data ''prompt'' (PStr []) in
                 if \<not> truthy user_prompt
                 then Inr (Inl (PDict (error_result ''Prompt is required'' ''missing_prompt'')))
                 else Inr (Inr [system,
                        PDict [(''role'', PStr ''user''), (''content'', user_prompt)]]))))"

text \<open>The arguments of the call to the provider, and the result built from its answer:
  \<^verbatim>\<open>response.choices[0]\<close> needs a choice and \<^verbatim>\<open>response.usage.prompt_tokens\<close> a usage.\<close>

definition chatgpt_kwargs :: "pydict \<Rightarrow> pyval list \<Rightarrow> pydict" where
  "chatgpt_kwargs request_data messages =
     [(''model'', PStr ''gpt-4o-mini''), (''messages'', PList messages),
      (''max_tokens'', dict_get request_data ''max_tokens'' (PInt 2000)),
      (''temperature'', dict_get request_data ''temperature'' (PFloat 0.7))]"

definition chatgpt_result :: "pydict \<Rightarrow> chat_completion \<Rightarrow> pyexn + pydict" where
  "chatgpt_result request_data response =
     (case choices response of
        [] \<Rightarrow> Inl (IndexError ''list index out of range'')
      | message_content # _ \<Rightarrow>
          (case usage response of
             None \<Rightarrow> Inl (AttributeError ''NoneType object has no attribute prompt_tokens'')
           | Some (prompt_tokens, completion_tokens, total_tokens) \<Rightarrow>
               Inr [(''response'', message_content),
                    (''model'', PStr ''gpt-4o-mini''),
                    (''usage'', PDict [(''prompt_tokens'', PInt prompt_tokens),
                                       (''completion_tokens'', PInt completion_tokens),
                                       (''total_tokens'', PInt total_tokens)]),
                    (''from_cache'', PBool False),
                    (''context_used'', dict_get request_data ''context'' (PStr ''text''))]))"

text \<open>The call to the provider and the write to the cache, which the \<^verbatim>\<open>imagecsv\<close>
  context skips.\<close>

definition chatgpt_call ::
  "runtime \<Rightarrow> real \<Rightarrow> world \<Rightarrow> string \<Rightarrow> pydict \<Rightarrow> string \<Rightarrow> pyval list
     \<Rightarrow> (pyexn + pyval) \<times> world" where
  "chatgpt_call rt now w key request_data user_id messages =
     (let context_name = dict_get request_data ''context'' (PStr ''text'');
          w1 = w\<lparr>backend_calls := backend_calls w + 1\<rparr> in
      case openai_create rt (chatgpt_kwargs request_data messages) of
        Inl e \<Rightarrow> (Inl e, w1)
      | Inr response \<Rightarrow>
          (case chatgpt_result request_data response of
             Inl e \<Rightarrow> (Inl e, w1)
           | Inr result \<Rightarrow>
               if context_name \<noteq> PStr ''imagecsv''
               then (case set_text_cache rt now w1 ''chatgpt'' key request_data result user_id of
                       (Inl e, w2) \<Rightarrow> (Inl e, w2)
                     | (Inr u, w2) \<Rightarrow> (Inr (PDict result), w2))
               else (Inr (PDict result), w1)))"

text \<open>The body of \<^verbatim>\<open>process_request\<close> inside its \<^verbatim>\<open>try\<close>.\<close>

definition chatgpt_try ::
  "runtime \<Rightarrow> real \<Rightarrow> world \<Rightarrow> pydict \<Rightarrow> string \<Rightarrow> bool \<Rightarrow> (pyexn + pyval) \<times> world" where
  "chatgpt_try rt now w request_data user_id force_refresh =
     (case chatgpt_check_rate_limit rt now w user_id of
        (admitted, w1) \<Rightarrow>
          if \<not> admitted then (Inr (PDict (error_result ''Rate limit exceeded'' ''rate_limit'')), w1)
          else
            (case generate_cache_key rt request_data user_id of
               Inl e \<Rightarrow> (Inl e, w1)
             | Inr key \<Rightarrow>
                 (case (if \<not> force_refresh then get_text_cache rt now w1 ''chatgpt'' key
                        else (Inr PNone, w1)) of
                    (Inl e, w2) \<Rightarrow> (Inl e, w2)
                  | (Inr cached_response, w2) \<Rightarrow>
                      if truthy cached_response
                      then (py_setitem cached_response ''from_cache'' (PBool True), w2)
                      else
                        (case chatgpt_messages rt request_data of
                           Inl e \<Rightarrow> (Inl e, w2)
                         | Inr (Inl invalid) \<Rightarrow> (Inr invalid, w2)
                         | Inr (Inr messages) \<Rightarrow>
                             chatgpt_call rt now w2 key request_data user_id messages))))"

text \<open>\<^verbatim>\<open>except Exception as e\<close>: every exception becomes an \<^verbatim>\<open>api_error\<close> result.\<close>

definition chatgpt_process_request ::
  "runtime \<Rightarrow> real \<Rightarrow> world \<Rightarrow> pydict \<Rightarrow> string \<Rightarrow> bool \<Rightarrow> pyval \<times> world" where
  "chatgpt_process_request rt now w request_data user_id force_refresh =
     (case chatgpt_try rt now w request_data user_id force_refresh of
        (Inl e, w') \<Rightarrow> (PDict (error_result (exc_str e) ''api_error''), w')
      | (Inr result, w') \<Rightarrow> (result, w'))"

section \<open>Speech adapter (plugin\_chatterbox.py)\<close>

definition supported_languages :: "(string \<times> string) list" where
  "supported_languages =
     [(''ar'', ''Arabic''), (''da'', ''Danish''), (''de'', ''German''), (''el'', ''Greek''),
      (''en'', ''English''), (''es'', ''Spanish''), (''fi'', ''Finnish''), (''fr'', ''French''),
      (''he'', ''Hebrew''), (''hi'', ''Hindi''), (''it'', ''Italian''), (''ja'', ''Japanese''),
      (''ko'', ''Korean''), (''ms'', ''Malay''), (''nl'', ''Dutch''), (''no'', ''Norwegian''),
      (''pl'', ''Polish''), (''pt'', ''Portuguese''), (''ru'', ''Russian''), (''sv'', ''Swedish''),
      (''sw'', ''Swahili''), (''tr'', ''Turkish''), (''zh'', ''Chinese'')]"

definition emotion_presets :: "string list" where
  "emotion_presets =
     [''neutral'', ''happy'', ''sad'', ''angry'', ''excited'', ''calm'', ''dramatic'']"

definition validate_language :: "pyval \<Rightarrow> bool" where
  "validate_language language_code =
     list_ex (\<lambda>lang. PStr (fst lang) = language_code) supported_languages"

definition validate_emotion :: "pyval \<Rightarrow> bool" where
  "validate_emotion emotion = list_ex (\<lambda>preset. PStr preset = emotion) emotion_presets"

text \<open>The validation of the request and the payload of the call, or the validation
  error returned instead (\<open>Inr (Inl result)\<close>).\<close>

definition chatterbox_payload :: "runtime \<Rightarrow> pydict \<Rightarrow> pyexn + (pyval + pydict)" where
  "chatterbox_payload rt request_data =
     (let text = dict_get request_data ''text'' PNone in
      if \<not> truthy text
      then Inr (Inl (PDict (error_result ''Text is required for TTS generation'' ''missing_text'')))
      else
        (let language = dict_get request_data ''language'' (PStr ''en'') in
         if \<not> validate_language language
         then Inr (Inl (PDict
                [(''error'', PStr (''Unsupported language: '' @ format_value rt language)),
                 (''error_type'', PStr ''invalid_language''),
                 (''from_cache'', PBool False),
                 (''supported_languages'', PList (map (\<lambda>lang. PStr (fst lang)) supported_languages))]))
         else
           (let emotion = dict_get request_data ''emotion'' (PStr ''neutral'') in
            if \<not> validate_emotion emotion
            then Inr (Inl (PDict
                   [(''error'', PStr (''Unsupported emotion: '' @ format_value rt emotion)),
                    (''error_type'', PStr ''invalid_emotion''),
                    (''from_cache'', PBool False),
                    (''supported_emotions'', PList (map PStr emotion_presets))]))
            else
              (case clamp_exaggeration (dict_get request_data ''exaggeration'' (PFloat 1)) of
                 Inl e \<Rightarrow> Inl e
               | Inr exaggeration \<Rightarrow>
                   (let payload =
                      [(''text'', text), (''language'', language), (''emotion'', emotion),
                       (''speed'', dict_get request_data ''speed'' (PFloat 1)),
                       (''exaggeration'', exaggeration),
                       (''seed'', dict_get request_data ''seed'' (PInt (- 1)))] in
                    Inr (Inr (if dict_has request_data ''audio_prompt_path''
                              then dict_set payload ''audio_prompt_path''
                                     (dict_get request_data ''audio_prompt_path'' PNone)
                              else payload)))))))"

text \<open>The result of a fresh generation.\<close>

definition chatterbox_result :: "runtime \<Rightarrow> pydict \<Rightarrow> pyval \<Rightarrow> string \<Rightarrow> pyexn + pyval" where
  "chatterbox_result rt payload response_data audio_data =
     (case py_get response_data ''generation_time'' PNone of
        Inl e \<Rightarrow> Inl e
      | Inr generation_time \<Rightarrow>
          (case py_get response_data ''seed'' (dict_get payload ''seed'' PNone) of
             Inl e \<Rightarrow> Inl e
           | Inr seed \<Rightarrow>
               (let result =
                  [(''audio'', PStr (''data:audio/wav;base64,'' @ b64encode rt audio_data)),
                   (''model'', PStr ''chatterbox-tts''),
                   (''from_cache'', PBool False),
                   (''text'', dict_get payload ''text'' PNone),
                   (''language'', dict_get payload ''language'' PNone),
                   (''emotion'', dict_get payload ''emotion'' PNone),
                   (''format'', PStr ''wav''),
                   (''generation_time'', generation_time),
                   (''parameters'', PDict
                      [(''speed'', dict_get payload ''speed'' PNone),
                       (''exaggeration'', dict_get payload ''exaggeration'' PNone),
                       (''seed'', seed)])] in
                Inr (PDict (if dict_has payload ''audio_prompt_path''
                            then dict_set result ''voice_cloned'' (PBool True)
                            else result)))))"

text \<open>The second call to the provider, which fetches the audio by its id, and the write
  to the blob cache.\<close>

definition chatterbox_fetch ::
  "runtime \<Rightarrow> world \<Rightarrow> string \<Rightarrow> pydict \<Rightarrow> pyval \<Rightarrow> pyval \<Rightarrow> (pyexn + pyval) \<times> world" where
  "chatterbox_fetch rt w key payload response_data audio_id =
     (let w2 = w\<lparr>backend_calls := backend_calls w + 1\<rparr> in
      case http_get rt (chatterbox_api_url rt @ ''/audio/'' @ format_value rt audio_id) of
        Inl e \<Rightarrow> (Inl e, w2)
      | Inr audio_response \<Rightarrow>
          if status_code audio_response \<noteq> 200
          then (Inr (PDict (error_result ''Failed to retrieve generated audio''
                              ''audio_retrieval_failed'')), w2)
          else
            (let audio_data = content audio_response in
             case set_file_cache rt w2 ''chatterbox'' key audio_data ''audio/wav'' of
               (Inl e, w3) \<Rightarrow> (Inl e, w3)
             | (Inr u, w3) \<Rightarrow> (chatterbox_result rt payload response_data audio_data, w3)))"

text \<open>The endpoint: voice cloning when the request has an \<^verbatim>\<open>audio_prompt_path\<close>, which
  is when the payload has one.\<close>

definition chatterbox_endpoint :: "pydict \<Rightarrow> string" where
  "chatterbox_endpoint payload =
     (if dict_has payload ''audio_prompt_path'' then ''/generate-with-voice'' else ''/generate'')"

text \<open>The first call to the provider, which submits the text, and the reading of its
  answer.\<close>

definition chatterbox_call ::
  "runtime \<Rightarrow> world \<Rightarrow> string \<Rightarrow> pydict \<Rightarrow> (pyexn + pyval) \<times> world" where
  "chatterbox_call rt w key payload =
     (let w1 = w\<lparr>backend_calls := backend_calls w + 1\<rparr> in
      case http_post rt (chatterbox_api_url rt @ chatterbox_endpoint payload) payload of
        Inl e \<Rightarrow> (Inl e, w1)
      | Inr response \<Rightarrow>
          if status_code response \<noteq> 200
          then (Inr (PDict (error_result
                  (''Chatterbox API error: '' @ dec_int (status_code response)) ''api_error'')), w1)
          else
          (case json_body response of
             Inl e \<Rightarrow> (Inl e, w1)
           | Inr response_data \<Rightarrow>
          (case py_contains response_data ''audio_id'' of
             Inl e \<Rightarrow> (Inl e, w1)
           | Inr has_id \<Rightarrow>
               if \<not> has_id
               then (Inr (PDict (error_result ''TTS generation failed'' ''generation_failed'')), w1)
               else
          (case py_getitem response_data ''audio_id'' of
             Inl e \<Rightarrow> (Inl e, w1)
           | Inr audio_id \<Rightarrow> chatterbox_fetch rt w1 key payload response_data audio_id))))"

definition chatterbox_try ::
  "runtime \<Rightarrow> real \<Rightarrow> world \<Rightarrow> pydict \<Rightarrow> string \<Rightarrow> bool \<Rightarrow> (pyexn + pyval) \<times> world" where
  "chatterbox_try rt now w request_data user_id force_refresh =
     (case chatterbox_check_rate_limit now w user_id of
        (admitted, w1) \<Rightarrow>
          if \<not> admitted
          then (Inr (PDict (error_result ''Rate limit exceeded for TTS generation'' ''rate_limit'')), w1)
          else
            (case generate_cache_key rt request_data user_id of
               Inl e \<Rightarrow> (Inl e, w1)
             | Inr key \<Rightarrow>
                 (case (if \<not> force_refresh then get_file_cache rt w1 ''chatterbox'' key
                        else (Inr PNone, w1)) of
                    (Inl e, w2) \<Rightarrow> (Inl e, w2)
                  | (Inr cached_audio, w2) \<Rightarrow>
                      if truthy cached_audio
                      then (case cached_audio of
                              PBytes audio_bytes \<Rightarrow>
                                (Inr (PDict
                                   [(''audio'', PStr (''data:audio/wav;base64,'' @ b64encode rt audio_bytes)),
                                    (''model'', PStr ''chatterbox-tts''),
                                    (''from_cache'', PBool True),
                                    (''text'', dict_get request_data ''text'' (PStr [])),
                                    (''language'', dict_get request_data ''language'' (PStr ''en'')),
                                    (''format'', PStr ''wav'')]), w2)
                            | _ \<Rightarrow> (Inl (TypeError ''a bytes-like object is required''), w2))
                      else
                        (case chatterbox_payload rt request_data of
                           Inl e \<Rightarrow> (Inl e, w2)
                         | Inr (Inl invalid) \<Rightarrow> (Inr invalid, w2)
                         | Inr (Inr payload) \<Rightarrow> chatterbox_call rt w2 key payload))))"

text \<open>\<^verbatim>\<open>except httpx.TimeoutException\<close>, then \<^verbatim>\<open>except Exception as e\<close>.\<close>

definition chatterbox_process_request ::
  "runtime \<Rightarrow> real \<Rightarrow> world \<Rightarrow> pydict \<Rightarrow> string \<Rightarrow> bool \<Rightarrow> pyval \<times> world" where
  "chatterbox_process_request rt now w request_data user_id force_refresh =
     (case chatterbox_try rt now w request_data user_id force_refresh of
        (Inl (TimeoutException m), w') \<Rightarrow>
          (PDict (error_result ''TTS generation timeout'' ''timeout''), w')
      | (Inl e, w') \<Rightarrow> (PDict (error_result (exc_str e) ''api_error''), w')
      | (Inr result, w') \<Rightarrow> (result, w'))"

section \<open>Image adapter (plugin\_flux.py)\<close>

definition flux_payload :: "pydict \<Rightarrow> pyval + pydict" where
  "flux_payload request_data =
     (let prompt = dict_get request_data ''prompt'' PNone in
      if \<not> truthy prompt
      then Inl (PDict (error_result ''Prompt is required for image generation'' ''missing_prompt''))
      else Inr [(''prompt'', prompt),
                (''width'', dict_get request_data ''width'' (PInt 1024)),
                (''height'', dict_get request_data ''height'' (PInt 1024)),
                (''num_inference_steps'', dict_get request_data ''steps'' (PInt 4)),
                (''guidance_scale'', dict_get request_data ''guidance_scale'' (PFloat 7.5)),
                (''seed'', dict_get request_data ''seed'' (PInt (- 1)))])"

definition flux_result :: "runtime \<Rightarrow> pydict \<Rightarrow> pyval \<Rightarrow> string \<Rightarrow> pyexn + pyval" where
  "flux_result rt payload response_data image_data =
     (case py_get response_data ''generation_time'' PNone of
        Inl e \<Rightarrow> Inl e
      | Inr generation_time \<Rightarrow>
          (case py_get response_data ''seed'' (dict_get payload ''seed'' PNone) of
             Inl e \<Rightarrow> Inl e
           | Inr seed \<Rightarrow>
               Inr (PDict
                 [(''image'', PStr (''data:image/png;base64,'' @ b64encode rt image_data)),
                  (''model'', PStr ''flux-1-schnell''),
                  (''from_cache'', PBool False),
                  (''prompt'', dict_get payload ''prompt'' PNone),
                  (''format'', PStr ''png''),
                  (''generation_time'', generation_time),
                  (''parameters'', PDict
                     [(''width'', dict_get payload ''width'' PNone),
                      (''height'', dict_get payload ''height'' PNone),
                      (''steps'', dict_get payload ''num_inference_steps'' PNone),
                      (''guidance_scale'', dict_get payload ''guidance_scale'' PNone),
                      (''seed'', seed)])])))"

definition flux_fetch ::
  "runtime \<Rightarrow> world \<Rightarrow> string \<Rightarrow> pydict \<Rightarrow> pyval \<Rightarrow> pyval \<Rightarrow> (pyexn + pyval) \<times> world" where
  "flux_fetch rt w key payload response_data image_id =
     (let w2 = w\<lparr>backend_calls := backend_calls w + 1\<rparr> in
      case http_get rt (flux_api_url rt @ ''/image/'' @ format_value rt image_id) of
        Inl e \<Rightarrow> (Inl e, w2)
      | Inr image_response \<Rightarrow>
          if status_code image_response \<noteq> 200
          then (Inr (PDict (error_result ''Failed to retrieve generated image''
                              ''image_retrieval_failed'')), w2)
          else
            (let image_data = content image_response in
             case set_file_cache rt w2 ''flux'' key image_data ''image/png'' of
               (Inl e, w3) \<Rightarrow> (Inl e, w3)
             | (Inr u, w3) \<Rightarrow> (flux_result rt payload response_data image_data, w3)))"

definition flux_call ::
  "runtime \<Rightarrow> world \<Rightarrow> string \<Rightarrow> pydict \<Rightarrow> (pyexn + pyval) \<times> world" where
  "flux_call rt w key payload =
     (let w1 = w\<lparr>backend_calls := backend_calls w + 1\<rparr> in
      case http_post rt (flux_api_url rt @ ''/generate'') payload of
        Inl e \<Rightarrow> (Inl e, w1)
      | Inr response \<Rightarrow>
          if status_code response \<noteq> 200
          then (Inr (PDict (error_result
                  (''Flux API error: '' @ dec_int (status_code response)) ''api_error'')), w1)
          else
          (case json_body response of
             Inl e \<Rightarrow> (Inl e, w1)
           | Inr response_data \<Rightarrow>
          (case py_contains response_data ''image_id'' of
             Inl e \<Rightarrow> (Inl e, w1)
           | Inr has_id \<Rightarrow>
               if \<not> has_id
               then (Inr (PDict (error_result ''Image generation failed'' ''generation_failed'')), w1)
               else
          (case py_getitem response_data ''image_id'' of
             Inl e \<Rightarrow> (Inl e, w1)
           | Inr image_id \<Rightarrow> flux_fetch rt w1 key payload response_data image_id))))"

definition flux_try ::
  "runtime \<Rightarrow> real \<Rightarrow> world \<Rightarrow> pydict \<Rightarrow> string \<Rightarrow> bool \<Rightarrow> (pyexn + pyval) \<times> world" where
  "flux_try rt now w request_data user_id force_refresh =
     (case flux_check_rate_limit now w user_id of
        (admitted, w1) \<Rightarrow>
          if \<not> admitted
          then (Inr (PDict (error_result ''Rate limit exceeded for image generation'' ''rate_limit'')), w1)
          else
            (case generate_cache_key rt request_data user_id of
               Inl e \<Rightarrow> (Inl e, w1)
             | Inr key \<Rightarrow>
                 (case (if \<not> force_refresh then get_file_cache rt w1 ''flux'' key
                        else (Inr PNone, w1)) of
                    (Inl e, w2) \<Rightarrow> (Inl e, w2)
                  | (Inr cached_image, w2) \<Rightarrow>
                      if truthy cached_image
                      then (case cached_image of
                              PBytes image_bytes \<Rightarrow>
                                (Inr (PDict
                                   [(''image'', PStr (''data:image/png;base64,'' @ b64encode rt image_bytes)),
                                    (''model'', PStr ''flux-1-schnell''),
                                    (''from_cache'', PBool True),
                                    (''prompt'', dict_get request_data ''prompt'' (PStr [])),
                                    (''format'', PStr ''png'')]), w2)
                            | _ \<Rightarrow> (Inl (TypeError ''a bytes-like object is required''), w2))
                      else
                        (case flux_payload request_data of
                           Inl invalid \<Rightarrow> (Inr invalid, w2)
                         | Inr payload \<Rightarrow> flux_call rt w2 key payload))))"

definition flux_process_request ::
  "runtime \<Rightarrow> real \<Rightarrow> world \<Rightarrow> pydict \<Rightarrow> string \<Rightarrow> bool \<Rightarrow> pyval \<times> world" where
  "flux_process_request rt now w request_data user_id force_refresh =
     (case flux_try rt now w request_data user_id force_refresh of
        (Inl (TimeoutException m), w') \<Rightarrow>
          (PDict (error_result ''Image generation timeout'' ''timeout''), w')
      | (Inl e, w') \<Rightarrow> (PDict (error_result (exc_str e) ''api_error''), w')
      | (Inr result, w') \<Rightarrow> (result, w'))"

section \<open>A test installation\<close>

text \<open>
  A runtime and a process state to run the definitions on: stand-ins for the library
  functions, the default threshold of 20 requests a minute, one context, and providers that
  answer every call successfully; the tables and buckets of the three adapters exist and
  are empty, as after startup.
\<close>

definition test_runtime :: runtime where
  "test_runtime =
     \<lparr>sha256_hexdigest = (\<lambda>s. s),
      float_repr = (\<lambda>x. ''0.5''),
      py_str = (\<lambda>v. ''None''),
      b64encode = (\<lambda>b. b),
      jsonb_decode = (\<lambda>v. v),
      cache_enabled = True,
      plugin_rate_limit_per_minute = 20,
      flux_api_url = ''http://flux'',
      chatterbox_api_url = ''http://tts'',
      contexts = [(''text'', ''Reply in to_lang.'')],
      openai_create = (\<lambda>kwargs. Inr \<lparr>choices = [PStr ''Salam''], usage = Some (9, 1, 10)\<rparr>),
      http_post = (\<lambda>url payload.
         Inr \<lparr>status_code = 200,
              json_body = Inr (PDict [(''audio_id'', PStr ''a1''), (''image_id'', PStr ''i1'')]),
              content = []\<rparr>),
      http_get = (\<lambda>url.
         Inr \<lparr>status_code = 200, json_body = Inl (OtherException ''not JSON''),
              content = ''RIFF''\<rparr>)\<rparr>"

definition test_database :: database where
  "test_database =
     \<lparr>db_fault = None,
      tables = [''cache_chatgpt'' \<mapsto> [], ''cache_flux'' \<mapsto> [], ''cache_chatterbox'' \<mapsto> []],
      db_calls = 0\<rparr>"

definition test_minio :: minio where
  "test_minio =
     \<lparr>s3_fault = None,
      buckets = [''chatgpt-cache'' \<mapsto> Map.empty, ''flux-cache'' \<mapsto> Map.empty,
                 ''chatterbox-cache'' \<mapsto> Map.empty],
      s3_calls = 0\<rparr>"

definition test_world :: world where
  "test_world =
     \<lparr>pg = test_database, s3 = test_minio,
      chatgpt_rate_limiter = Map.empty, flux_rate_limiter = Map.empty,
      chatterbox_rate_limiter = Map.empty, backend_calls = 0\<rparr>"

text \<open>The text adapter's table with one entry.\<close>

definition test_row :: cache_row where
  "test_row =
     \<lparr>row_cache_key = ''k1'', row_request_data = PDict [(''prompt'', PStr ''hello'')],
      row_response_data = PDict [(''response'', PStr ''one'')], row_user_id = ''u1'',
      row_created_at = 1, row_accessed_at = 1\<rparr>"

definition test_database_hit :: database where
  "test_database_hit =
     test_database\<lparr>tables := (tables test_database)(''cache_chatgpt'' \<mapsto> [test_row])\<rparr>"

text \<open>Entries of two users and a cached blob; and a process whose stores are down.\<close>

definition test_row2 :: cache_row where
  "test_row2 =
     \<lparr>row_cache_key = ''k2'', row_request_data = PDict [(''prompt'', PStr ''bye'')],
      row_response_data = PDict [(''response'', PStr ''two'')], row_user_id = ''u2'',
      row_created_at = 2, row_accessed_at = 2\<rparr>"

definition test_world_cached :: world where
  "test_world_cached =
     test_world
       \<lparr>pg := test_database
               \<lparr>tables := (tables test_database)(''cache_chatgpt'' \<mapsto> [test_row, test_row2])\<rparr>,
        s3 := test_minio
               \<lparr>buckets := (buckets test_minio)
                  (''chatgpt-cache'' \<mapsto> [''k9'' \<mapsto> (''RIFF'', ''audio/wav'')])\<rparr>\<rparr>"

definition test_world_down :: world where
  "test_world_down =
     test_world
       \<lparr>pg := test_database\<lparr>db_fault := Some (OtherException ''connection refused'')\<rparr>,
        s3 := test_minio\<lparr>s3_fault := Some (S3Error ''SlowDown'' ''reduce your request rate'')\<rparr>\<rparr>"

text \<open>The test installation with caching switched off.\<close>

definition test_runtime_uncached :: runtime where
  "test_runtime_uncached = test_runtime\<lparr>cache_enabled := False\<rparr>"








section \<open>Properties of the fingerprint\<close>









section \<open>Properties of the structured cache store\<close>

lemma table_name_of_inj: "table_name_of p = table_name_of q \<longleftrightarrow> p = q"
  by (simp add: table_name_of_def)

lemma bucket_name_of_inj: "bucket_name_of p = bucket_name_of q \<longleftrightarrow> p = q"
  by (simp add: bucket_name_of_def)

text \<open>
  C1. Two puts with the same fingerprint and two different response payloads, on the
  empty table of the text adapter: one entry is left, but its response payload is the
  request document of the second put, not the second response payload. The conflict
  branch of the upsert assigns \<open>$2\<close>, the request, where \<open>$3\<close> is the response.
\<close>

theorem set_cache_conflict_keeps_request:
  "tables
     (snd (set_cache test_runtime 2
        (snd (set_cache test_runtime 1 test_database ''chatgpt'' ''k''
                [(''prompt'', PStr ''hello'')] [(''response'', PStr ''one'')] ''u1''))
        ''chatgpt'' ''k'' [(''prompt'', PStr ''hello'')] [(''response'', PStr ''two'')] ''u1''))
     ''cache_chatgpt''
   = Some [\<lparr>row_cache_key = ''k'',
             row_request_data = PDict [(''prompt'', PStr ''hello'')],
             row_response_data = PDict [(''prompt'', PStr ''hello'')],
             row_user_id = ''u1'', row_created_at = 1, row_accessed_at = 2\<rparr>]
   \<and> PDict [(''prompt'', PStr ''hello'')] \<noteq> PDict [(''response'', PStr ''two'')]"
  by (simp add: set_cache_def test_database_def json_dumps_def pg_varchar_def table_name_of_def)

lemma refresh_no_match:
  "\<not> list_ex (\<lambda>r. row_cache_key r = key) rows \<Longrightarrow>
   map (\<lambda>r. if row_cache_key r = key then r\<lparr>row_accessed_at := now\<rparr> else r) rows = rows"
  by (induction rows) auto

lemma filter_no_match:
  "\<not> list_ex (\<lambda>r. row_cache_key r = key) rows \<Longrightarrow>
   filter (\<lambda>r. row_cache_key r = key) rows = []"
  by (induction rows) auto

lemma refresh_list_all2:
  "list_all2
     (\<lambda>r r'. row_cache_key r' = row_cache_key r \<and>
             row_request_data r' = row_request_data r \<and>
             row_response_data r' = row_response_data r \<and>
             row_user_id r' = row_user_id r \<and>
             row_created_at r' = row_created_at r \<and>
             row_accessed_at r' = (if row_cache_key r = key then now else row_accessed_at r))
     rows (map (\<lambda>r. if row_cache_key r = key then r\<lparr>row_accessed_at := now\<rparr> else r) rows)"
  by (induction rows) auto

lemma get_cache_tables:
  assumes "db_fault db = None" and "tables db (table_name_of plugin_name) = Some rows"
  shows "tables (snd (get_cache rt now db plugin_name key)) =
         (tables db)(table_name_of plugin_name \<mapsto>
            map (\<lambda>r. if row_cache_key r = key then r\<lparr>row_accessed_at := now\<rparr> else r) rows)"
  using assms by (simp add: get_cache_def Let_def)

text \<open>
  C8. A get on a reachable store whose table exists leaves every row as it was, except
  that the rows with the requested key get the current time as their last-accessed
  time: key, request snapshot, response payload, owner and creation time are unchanged,
  and so are the other tables. When no row has the key, the get returns \<^verbatim>\<open>None\<close> and
  the tables are what they were.
\<close>

theorem get_cache_refreshes_accessed_at:
  assumes "db_fault db = None"
    and "tables db (table_name_of plugin_name) = Some rows"
  shows "(\<exists>rows'.
            tables (snd (get_cache rt now db plugin_name key)) (table_name_of plugin_name) = Some rows' \<and>
            list_all2
              (\<lambda>r r'. row_cache_key r' = row_cache_key r \<and>
                      row_request_data r' = row_request_data r \<and>
                      row_response_data r' = row_response_data r \<and>
                      row_user_id r' = row_user_id r \<and>
                      row_created_at r' = row_created_at r \<and>
                      row_accessed_at r' = (if row_cache_key r = key then now else row_accessed_at r))
              rows rows') \<and>
         (\<forall>other. other \<noteq> table_name_of plugin_name \<longrightarrow>
            tables (snd (get_cache rt now db plugin_name key)) other = tables db other) \<and>
         (\<not> list_ex (\<lambda>r. row_cache_key r = key) rows \<longrightarrow>
            fst (get_cache rt now db plugin_name key) = Inr PNone \<and>
            tables (snd (get_cache rt now db plugin_name key)) = tables db)"
proof (intro conjI allI impI)
  show "\<exists>rows'.
            tables (snd (get_cache rt now db plugin_name key)) (table_name_of plugin_name) = Some rows' \<and>
            list_all2
              (\<lambda>r r'. row_cache_key r' = row_cache_key r \<and>
                      row_request_data r' = row_request_data r \<and>
                      row_response_data r' = row_response_data r \<and>
                      row_user_id r' = row_user_id r \<and>
                      row_created_at r' = row_created_at r \<and>
                      row_accessed_at r' = (if row_cache_key r = key then now else row_accessed_at r))
              rows rows'"
    using refresh_list_all2 [of key now rows] by (simp add: get_cache_tables [OF assms])
next
  fix other assume "other \<noteq> table_name_of plugin_name"
  then show "tables (snd (get_cache rt now db plugin_name key)) other = tables db other"
    by (simp add: get_cache_tables [OF assms])
next
  assume miss: "\<not> list_ex (\<lambda>r. row_cache_key r = key) rows"
  show "fst (get_cache rt now db plugin_name key) = Inr PNone"
    using assms miss by (simp add: get_cache_def Let_def refresh_no_match filter_no_match)
  show "tables (snd (get_cache rt now db plugin_name key)) = tables db"
    using assms(2) miss by (simp add: get_cache_tables [OF assms] refresh_no_match map_upd_triv)
qed

theorem get_cache_refreshes_accessed_at_witness:
  "db_fault test_database_hit = None \<and>
   tables test_database_hit (table_name_of ''chatgpt'') = Some [test_row] \<and>
   (\<exists>rows'.
      tables (snd (get_cache test_runtime 7 test_database_hit ''chatgpt'' ''k1''))
        (table_name_of ''chatgpt'') = Some rows' \<and>
      list_all2
        (\<lambda>r r'. row_cache_key r' = row_cache_key r \<and>
                row_request_data r' = row_request_data r \<and>
                row_response_data r' = row_response_data r \<and>
                row_user_id r' = row_user_id r \<and>
                row_created_at r' = row_created_at r \<and>
                row_accessed_at r' = (if row_cache_key r = ''k1'' then 7 else row_accessed_at r))
        [test_row] rows')"
proof -
  have h1: "db_fault test_database_hit = None"
    by (simp add: test_database_hit_def test_database_def)
  have h2: "tables test_database_hit (table_name_of ''chatgpt'') = Some [test_row]"
    by (simp add: test_database_hit_def table_name_of_def)
  show ?thesis
    using h1 h2 get_cache_refreshes_accessed_at [OF h1 h2, of test_runtime 7 "''k1''"]
    by blast
qed


lemma db_clear_user:
  assumes "db_fault db = None" and "tables db (table_name_of plugin_name) = Some rows"
    and "u1 \<noteq> []"
  shows "db_clear_plugin_cache db plugin_name (Some u1) =
           (Inr (), db\<lparr>db_calls := db_calls db + 1,
                        tables := (tables db)(table_name_of plugin_name \<mapsto>
                                     filter (\<lambda>r. row_user_id r \<noteq> u1) rows)\<rparr>)"
  using assms by (simp add: db_clear_plugin_cache_def Let_def)

lemma db_clear_all:
  assumes "db_fault db = None" and "tables db (table_name_of plugin_name) = Some rows"
  shows "db_clear_plugin_cache db plugin_name None =
           (Inr (), db\<lparr>db_calls := db_calls db + 1,
                        tables := (tables db)(table_name_of plugin_name \<mapsto> [])\<rparr>)"
  using assms by (simp add: db_clear_plugin_cache_def Let_def)

lemma minio_clear_objects:
  assumes "s3_fault m = None"
  shows "blob_objects (snd (minio_clear_plugin_cache m plugin_name)) plugin_name = Map.empty"
  using assms
  by (auto simp: minio_clear_plugin_cache_def blob_objects_def Let_def split: option.splits)

lemma minio_clear_other_buckets:
  assumes "q \<noteq> plugin_name"
  shows "buckets (snd (minio_clear_plugin_cache m plugin_name)) (bucket_name_of q)
           = buckets m (bucket_name_of q)"
  using assms
  by (auto simp: minio_clear_plugin_cache_def Let_def bucket_name_of_inj split: option.splits)

text \<open>
  C7. On reachable stores, with the adapter's table in place and a (non-empty) user id:
  a clear for that user leaves exactly the rows of the other users in the adapter's
  table, as they were and in their order, and leaves the blob store as it was; a clear
  without a user empties the adapter's table and the adapter's bucket. Either way the
  tables and buckets of the other adapters are unchanged.
\<close>

theorem clear_plugin_cache_scoped:
  assumes "db_fault (pg w) = None" and "s3_fault (s3 w) = None"
    and "tables (pg w) (table_name_of plugin_name) = Some rows"
    and "u1 \<noteq> []"
  shows "tables (pg (snd (clear_plugin_cache w plugin_name (Some u1)))) (table_name_of plugin_name)
           = Some (filter (\<lambda>r. row_user_id r \<noteq> u1) rows)
       \<and> s3 (snd (clear_plugin_cache w plugin_name (Some u1))) = s3 w
       \<and> tables (pg (snd (clear_plugin_cache w plugin_name None))) (table_name_of plugin_name)
           = Some []
       \<and> blob_objects (s3 (snd (clear_plugin_cache w plugin_name None))) plugin_name = Map.empty
       \<and> (\<forall>q. q \<noteq> plugin_name \<longrightarrow>
            tables (pg (snd (clear_plugin_cache w plugin_name (Some u1)))) (table_name_of q)
              = tables (pg w) (table_name_of q)
          \<and> tables (pg (snd (clear_plugin_cache w plugin_name None))) (table_name_of q)
              = tables (pg w) (table_name_of q)
          \<and> buckets (s3 (snd (clear_plugin_cache w plugin_name None))) (bucket_name_of q)
              = buckets (s3 w) (bucket_name_of q))"
proof -
  have user: "snd (clear_plugin_cache w plugin_name (Some u1)) =
      w\<lparr>pg := (pg w)\<lparr>db_calls := db_calls (pg w) + 1,
                       tables := (tables (pg w))(table_name_of plugin_name \<mapsto>
                                     filter (\<lambda>r. row_user_id r \<noteq> u1) rows)\<rparr>\<rparr>"
    using assms by (simp add: clear_plugin_cache_def db_clear_user)
  have all: "snd (clear_plugin_cache w plugin_name None) =
      w\<lparr>pg := (pg w)\<lparr>db_calls := db_calls (pg w) + 1,
                       tables := (tables (pg w))(table_name_of plugin_name \<mapsto> [])\<rparr>,
        s3 := snd (minio_clear_plugin_cache (s3 w) plugin_name)\<rparr>"
    using assms by (simp add: clear_plugin_cache_def db_clear_all split: prod.splits)
  show ?thesis
    using minio_clear_objects [OF assms(2), of plugin_name]
    by (simp add: user all table_name_of_inj minio_clear_other_buckets)
qed


theorem clear_plugin_cache_scoped_witness:
  "db_fault (pg test_world_cached) = None
   \<and> s3_fault (s3 test_world_cached) = None
   \<and> tables (pg test_world_cached) (table_name_of ''chatgpt'') = Some [test_row, test_row2]
   \<and> ''u1'' \<noteq> []
   \<and> tables (pg (snd (clear_plugin_cache test_world_cached ''chatgpt'' (Some ''u1''))))
        (table_name_of ''chatgpt'') = Some [test_row2]
   \<and> s3 (snd (clear_plugin_cache test_world_cached ''chatgpt'' (Some ''u1''))) = s3 test_world_cached
   \<and> tables (pg (snd (clear_plugin_cache test_world_cached ''chatgpt'' None)))
        (table_name_of ''chatgpt'') = Some []
   \<and> blob_objects (s3 (snd (clear_plugin_cache test_world_cached ''chatgpt'' None))) ''chatgpt''
        = Map.empty"
proof -
  have h1: "db_fault (pg test_world_cached) = None"
    by (simp add: test_world_cached_def test_database_def)
  have h2: "s3_fault (s3 test_world_cached) = None"
    by (simp add: test_world_cached_def test_minio_def)
  have h3: "tables (pg test_world_cached) (table_name_of ''chatgpt'') = Some [test_row, test_row2]"
    by (simp add: test_world_cached_def table_name_of_def)
  have h4: "''u1'' \<noteq> []" by simp
  have f: "filter (\<lambda>r. row_user_id r \<noteq> ''u1'') [test_row, test_row2] = [test_row2]"
    by (simp add: test_row_def test_row2_def)
  show ?thesis
    using h1 h2 h3 clear_plugin_cache_scoped [OF h1 h2 h3 h4] unfolding f by simp
qed

section \<open>Properties of the cache manager\<close>

lemma get_cache_raises_tables:
  "fst (get_cache rt now db p k) = Inl e \<Longrightarrow> tables (snd (get_cache rt now db p k)) = tables db"
  by (auto simp: get_cache_def Let_def split: option.splits)

lemma set_cache_raises_tables:
  "fst (set_cache rt now db p k req resp uid) = Inl e \<Longrightarrow>
   tables (snd (set_cache rt now db p k req resp uid)) = tables db"
  by (auto simp: set_cache_def Let_def split: option.splits sum.splits if_splits)

lemma minio_get_buckets:
  "buckets (snd (minio_get_file_cache m p k)) = buckets m"
  by (auto simp: minio_get_file_cache_def Let_def split: option.splits)

lemma minio_set_raises_buckets:
  "fst (minio_set_file_cache m p k data ct) = Inl e \<Longrightarrow>
   buckets (snd (minio_set_file_cache m p k data ct)) = buckets m"
  by (auto simp: minio_set_file_cache_def Let_def split: option.splits)

lemma get_text_cache_returns: "\<exists>v. fst (get_text_cache rt now w p k) = Inr v"
  by (auto simp: get_text_cache_def split: prod.splits sum.splits)

lemma get_file_cache_returns: "\<exists>v. fst (get_file_cache rt w p k) = Inr v"
  by (auto simp: get_file_cache_def split: prod.splits sum.splits)

lemma set_text_cache_returns: "fst (set_text_cache rt now w p k req resp uid) = Inr ()"
  by (auto simp: set_text_cache_def split: prod.splits sum.splits)

lemma set_file_cache_returns: "fst (set_file_cache rt w p k data ct) = Inr ()"
  by (auto simp: set_file_cache_def split: prod.splits sum.splits)

lemma get_text_cache_swallows:
  assumes "cache_enabled rt" and "fst (get_cache rt now (pg w) p k) = Inl e"
  shows "fst (get_text_cache rt now w p k) = Inr PNone"
    and "tables (pg (snd (get_text_cache rt now w p k))) = tables (pg w)"
  using assms get_cache_raises_tables [OF assms(2)]
  by (auto simp: get_text_cache_def split: prod.splits sum.splits)

lemma set_text_cache_swallows:
  assumes "cache_enabled rt" and "fst (set_cache rt now (pg w) p k req resp uid) = Inl e"
  shows "tables (pg (snd (set_text_cache rt now w p k req resp uid))) = tables (pg w)"
  using assms set_cache_raises_tables [OF assms(2)]
  by (auto simp: set_text_cache_def split: prod.splits sum.splits)

lemma get_file_cache_swallows:
  assumes "cache_enabled rt" and "fst (minio_get_file_cache (s3 w) p k) = Inl e"
  shows "fst (get_file_cache rt w p k) = Inr PNone"
    and "buckets (s3 (snd (get_file_cache rt w p k))) = buckets (s3 w)"
  using assms minio_get_buckets [of "s3 w" p k]
  by (auto simp: get_file_cache_def split: prod.splits sum.splits)

lemma set_file_cache_swallows:
  assumes "cache_enabled rt" and "fst (minio_set_file_cache (s3 w) p k data ct) = Inl e"
  shows "buckets (s3 (snd (set_file_cache rt w p k data ct))) = buckets (s3 w)"
  using assms minio_set_raises_buckets [OF assms(2)]
  by (auto simp: set_file_cache_def split: prod.splits sum.splits)

lemma db_fault_get: "db_fault db = Some e \<Longrightarrow> fst (get_cache rt now db p k) = Inl e"
  by (simp add: get_cache_def Let_def)

lemma db_fault_set: "db_fault db = Some e \<Longrightarrow> fst (set_cache rt now db p k req resp uid) = Inl e"
  by (simp add: set_cache_def Let_def)

lemma s3_fault_get:
  "s3_fault m = Some e \<Longrightarrow>
   fst (minio_get_file_cache m p k) = (if is_S3Error e then Inr PNone else Inl e)"
  by (simp add: minio_get_file_cache_def Let_def)

lemma s3_fault_set: "s3_fault m = Some e \<Longrightarrow> fst (minio_set_file_cache m p k data ct) = Inl e"
  by (simp add: minio_set_file_cache_def Let_def)

lemma s3_fault_get_file_cache:
  assumes "s3_fault (s3 w) = Some e"
  shows "fst (get_file_cache rt w p k) = Inr PNone"
  using s3_fault_get [OF assms, of p k]
  by (cases "is_S3Error e") (auto simp: get_file_cache_def split: prod.splits sum.splits)

section \<open>Properties of the rate limiter\<close>

lemma check_rate_limit_step:
  "check_rate_limit limit now limiter u =
     (let kept = filter (\<lambda>t. now - 60 < t) (recorded_times limiter u)
      in (int (length kept) < limit,
          limiter(u \<mapsto> (if int (length kept) < limit then kept @ [now] else kept))))"
  by (auto simp: check_rate_limit_def recorded_times_def Let_def)

lemma check_rate_limit_seq_append:
  "check_rate_limit_seq limit limiter u (xs @ ys) =
     (fst (check_rate_limit_seq limit limiter u xs)
        @ fst (check_rate_limit_seq limit (snd (check_rate_limit_seq limit limiter u xs)) u ys),
      snd (check_rate_limit_seq limit (snd (check_rate_limit_seq limit limiter u xs)) u ys))"
  by (induction xs arbitrary: limiter) (auto split: prod.splits)

lemma all_admitted:
  assumes "\<forall>x \<in> set kept0 \<union> set ts. T - 60 < x"
    and "\<forall>t \<in> set ts. t \<le> T"
    and "int (length kept0 + length ts) \<le> limit"
    and "recorded_times limiter u = kept0"
  shows "fst (check_rate_limit_seq limit limiter u ts) = replicate (length ts) True
       \<and> recorded_times (snd (check_rate_limit_seq limit limiter u ts)) u = kept0 @ ts"
  using assms
proof (induction ts arbitrary: limiter kept0)
  case Nil
  then show ?case by simp
next
  case (Cons t ts)
  have keep: "filter (\<lambda>x. t - 60 < x) kept0 = kept0"
  proof -
    have "t \<le> T" using Cons.prems(2) by simp
    moreover have "\<forall>x \<in> set kept0. T - 60 < x" using Cons.prems(1) by simp
    ultimately have "\<forall>x \<in> set kept0. t - 60 < x" by fastforce
    then show ?thesis by (simp add: filter_id_conv)
  qed
  have room: "int (length kept0) < limit"
    using Cons.prems(3) by simp
  have step: "check_rate_limit limit t limiter u = (True, limiter(u \<mapsto> kept0 @ [t]))"
    using keep room Cons.prems(4) by (simp add: check_rate_limit_step Let_def)
  have rec: "recorded_times (limiter(u \<mapsto> kept0 @ [t])) u = kept0 @ [t]"
    by (simp add: recorded_times_def)
  have ih: "fst (check_rate_limit_seq limit (limiter(u \<mapsto> kept0 @ [t])) u ts)
              = replicate (length ts) True
          \<and> recorded_times (snd (check_rate_limit_seq limit (limiter(u \<mapsto> kept0 @ [t])) u ts)) u
              = (kept0 @ [t]) @ ts"
    using Cons.prems by (intro Cons.IH [OF _ _ _ rec]) auto
  show ?case
    using ih by (cases "check_rate_limit_seq limit (limiter(u \<mapsto> kept0 @ [t])) u ts")
      (simp add: step)
qed

lemma window_full_rejected:
  assumes "recorded_times limiter u = kept" and "\<forall>x \<in> set kept. t - 60 < x"
    and "limit \<le> int (length kept)"
  shows "check_rate_limit limit t limiter u = (False, limiter(u \<mapsto> kept))"
  using assms by (simp add: check_rate_limit_step Let_def filter_id_conv)

lemma window_expired_admitted:
  assumes "recorded_times limiter u = kept" and "\<forall>x \<in> set kept. x \<le> t - 60" and "0 < limit"
  shows "check_rate_limit limit t limiter u = (True, limiter(u \<mapsto> [t]))"
proof -
  have "filter (\<lambda>x. t - 60 < x) kept = []"
    using assms(2) by (auto simp: filter_empty_conv)
  then show ?thesis
    using assms(1,3) by (simp add: check_rate_limit_step Let_def)
qed

lemma sorted_le_last: "sorted xs \<Longrightarrow> x \<in> set xs \<Longrightarrow> x \<le> last xs"
  by (induction xs) auto

text \<open>
  C4, as stated, fails at the boundary of the window: a timestamp that is exactly 60
  seconds old is not older than \<open>now - 60\<close>, so the specification keeps it and, with a
  threshold of 1, rejects the call; the code keeps only the timestamps greater than
  \<open>now - 60\<close>, drops it and admits the call.
\<close>

theorem rate_limit_boundary_counterexample:
  "fst (check_rate_limit 1 60 [''u1'' \<mapsto> [0]] ''u1'') = True
   \<and> fst (spec_admit 1 60 [''u1'' \<mapsto> [0]] ''u1'') = False"
  by (simp add: check_rate_limit_def spec_admit_def recorded_times_def)

text \<open>
  C4, amended. An admission check keeps the recorded timestamps greater than
  \<open>now - 60\<close> (it drops those 60 seconds old or older), admits iff their number is below
  the threshold and records \<open>now\<close> only when it admits. Hence, for a threshold \<open>n > 0\<close>
  and a user with nothing recorded: of \<open>n + 1\<close> checks at non-decreasing times less than
  60 seconds apart the first \<open>n\<close> are admitted and the last is rejected, the \<open>n\<close> admitted
  times being the ones recorded; and any check 60 seconds or more after the last
  admitted one is admitted and restarts the window with its own time.
\<close>

theorem rate_limit_window:
  assumes "0 < n" and "limit = int n"
    and "recorded_times limiter u = []"
    and "sorted ts" and "length ts = Suc n" and "last ts < hd ts + 60"
  shows "check_rate_limit limit now0 limiter0 u0 =
           (let kept = filter (\<lambda>t. now0 - 60 < t) (recorded_times limiter0 u0)
            in (int (length kept) < limit,
                limiter0(u0 \<mapsto> (if int (length kept) < limit then kept @ [now0] else kept))))
       \<and> fst (check_rate_limit_seq limit limiter u ts) = replicate n True @ [False]
       \<and> recorded_times (snd (check_rate_limit_seq limit limiter u ts)) u = butlast ts
       \<and> (\<forall>t. last (butlast ts) + 60 \<le> t \<longrightarrow>
            check_rate_limit limit t (snd (check_rate_limit_seq limit limiter u ts)) u
              = (True, (snd (check_rate_limit_seq limit limiter u ts))(u \<mapsto> [t])))"
proof -
  let ?T = "last ts"
  let ?init = "butlast ts"
  have ne: "ts \<noteq> []" using assms(5) by auto
  have split: "ts = ?init @ [?T]" using ne by simp
  have len: "length ?init = n" using assms(5) by simp
  have ne_init: "?init \<noteq> []"
  proof
    assume e: "?init = []"
    have "length ?init = 0" unfolding e by simp
    then show False using len assms(1) by linarith
  qed
  have bounds: "\<forall>x \<in> set ts. hd ts \<le> x \<and> x \<le> ?T"
  proof
    fix x assume x: "x \<in> set ts"
    obtain a as where ts: "ts = a # as" using ne by (cases ts) auto
    have "hd ts \<le> x" using x assms(4) by (auto simp: ts)
    moreover have "x \<le> ?T" using x assms(4) by (simp add: sorted_le_last)
    ultimately show "hd ts \<le> x \<and> x \<le> ?T" by simp
  qed
  have init_sub: "set ?init \<subseteq> set ts" by (meson in_set_butlastD subsetI)
  have fresh: "\<forall>x \<in> set [] \<union> set ?init. ?T - 60 < x"
    using bounds init_sub assms(6) by fastforce
  have upper: "\<forall>t \<in> set ?init. t \<le> ?T" using bounds init_sub by auto
  have A: "fst (check_rate_limit_seq limit limiter u ?init) = replicate (length ?init) True
       \<and> recorded_times (snd (check_rate_limit_seq limit limiter u ?init)) u = [] @ ?init"
    using assms(2) len by (intro all_admitted [OF fresh upper _ assms(3)]) simp
  let ?l1 = "snd (check_rate_limit_seq limit limiter u ?init)"
  have rec1: "recorded_times ?l1 u = ?init" using A by simp
  have B: "check_rate_limit limit ?T ?l1 u = (False, ?l1(u \<mapsto> ?init))"
    using fresh assms(2) len by (intro window_full_rejected [OF rec1]) auto
  have seq: "check_rate_limit_seq limit limiter u ts =
               (replicate n True @ [False], ?l1(u \<mapsto> ?init))"
  proof -
    have "check_rate_limit_seq limit limiter u (?init @ [?T]) =
               (replicate n True @ [False], ?l1(u \<mapsto> ?init))"
      using A len by (simp add: check_rate_limit_seq_append B)
    then show ?thesis using split by simp
  qed
  have rec2: "recorded_times (?l1(u \<mapsto> ?init)) u = ?init"
    by (simp add: recorded_times_def)
  have C: "\<forall>t. last ?init + 60 \<le> t \<longrightarrow>
            check_rate_limit limit t (?l1(u \<mapsto> ?init)) u = (True, (?l1(u \<mapsto> ?init))(u \<mapsto> [t]))"
  proof (intro allI impI)
    fix t assume t: "last ?init + 60 \<le> t"
    have "sorted ?init" using assms(4) by (rule sorted_butlast)
    then have "\<forall>x \<in> set ?init. x \<le> last ?init"
      by (simp add: sorted_le_last)
    then have old: "\<forall>x \<in> set ?init. x \<le> t - 60" using t by fastforce
    show "check_rate_limit limit t (?l1(u \<mapsto> ?init)) u = (True, (?l1(u \<mapsto> ?init))(u \<mapsto> [t]))"
      using assms(1,2) by (intro window_expired_admitted [OF rec2 old]) simp
  qed
  show ?thesis
    using C by (simp add: seq rec2 check_rate_limit_step)
qed


theorem rate_limit_window_witness:
  "(0::nat) < 2 \<and> (2::int) = int 2
   \<and> recorded_times Map.empty ''u1'' = []
   \<and> sorted [0, 10, 20 :: real] \<and> length [0, 10, 20 :: real] = Suc 2
   \<and> last [0, 10, 20 :: real] < hd [0, 10, 20] + 60
   \<and> fst (check_rate_limit_seq 2 Map.empty ''u1'' [0, 10, 20]) = [True, True, False]
   \<and> recorded_times (snd (check_rate_limit_seq 2 Map.empty ''u1'' [0, 10, 20])) ''u1'' = [0, 10]
   \<and> fst (check_rate_limit 2 70 (snd (check_rate_limit_seq 2 Map.empty ''u1'' [0, 10, 20])) ''u1'')
       = True"
proof -
  have h1: "(0::nat) < 2" by simp
  have h2: "(2::int) = int 2" by simp
  have h3: "recorded_times Map.empty ''u1'' = []" by (simp add: recorded_times_def)
  have h4: "sorted [0, 10, 20 :: real]" by simp
  have h5: "length [0, 10, 20 :: real] = Suc 2" by simp
  have h6: "last [0, 10, 20 :: real] < hd [0, 10, 20] + 60" by simp
  have r: "replicate 2 True @ [False] = [True, True, False]"
    by (simp add: numeral_2_eq_2)
  note w = rate_limit_window [OF h1 h2 h3 h4 h5 h6, of 0 Map.empty "''u1''"]
  have c1: "fst (check_rate_limit_seq 2 Map.empty ''u1'' [0, 10, 20]) = [True, True, False]"
    using w unfolding r by blast
  have c2: "recorded_times (snd (check_rate_limit_seq 2 Map.empty ''u1'' [0, 10, 20])) ''u1''
              = butlast [0, 10, 20]"
    using w by blast
  have c3: "last (butlast [0, 10, 20 :: real]) + 60 \<le> 70 \<longrightarrow>
            check_rate_limit 2 70 (snd (check_rate_limit_seq 2 Map.empty ''u1'' [0, 10, 20])) ''u1''
              = (True, (snd (check_rate_limit_seq 2 Map.empty ''u1'' [0, 10, 20]))(''u1'' \<mapsto> [70]))"
    using w by blast
  have "last (butlast [0, 10, 20 :: real]) + 60 \<le> 70" by simp
  with c3 have c4:
    "fst (check_rate_limit 2 70 (snd (check_rate_limit_seq 2 Map.empty ''u1'' [0, 10, 20])) ''u1'')
       = True"
    by simp
  have b: "butlast [0, 10, 20 :: real] = [0, 10]" by simp
  show ?thesis
    using h3 c1 c2 c4 unfolding b by (simp del: check_rate_limit_seq.simps)
qed

section \<open>Properties of the adapters\<close>

lemma generate_cache_key_cases:
  "generate_cache_key rt req uid =
     (if json_serializable (PDict req)
      then Inr (sha256_hexdigest rt (json_text (float_repr rt) True
                  (PDict [(''request'', PDict req), (''user_id'', PStr uid)])))
      else Inl (TypeError ''Object of type bytes is not JSON serializable''))"
  by (simp add: generate_cache_key_def json_dumps_def)

lemma chatgpt_check_rate_limit_frame:
  "pg (snd (chatgpt_check_rate_limit rt now w u)) = pg w"
  "s3 (snd (chatgpt_check_rate_limit rt now w u)) = s3 w"
  "backend_calls (snd (chatgpt_check_rate_limit rt now w u)) = backend_calls w"
  by (simp_all add: chatgpt_check_rate_limit_def split: prod.splits)

lemma flux_check_rate_limit_frame:
  "pg (snd (flux_check_rate_limit now w u)) = pg w"
  "s3 (snd (flux_check_rate_limit now w u)) = s3 w"
  "backend_calls (snd (flux_check_rate_limit now w u)) = backend_calls w"
  by (simp_all add: flux_check_rate_limit_def split: prod.splits)

lemma chatterbox_check_rate_limit_frame:
  "pg (snd (chatterbox_check_rate_limit now w u)) = pg w"
  "s3 (snd (chatterbox_check_rate_limit now w u)) = s3 w"
  "backend_calls (snd (chatterbox_check_rate_limit now w u)) = backend_calls w"
  by (simp_all add: chatterbox_check_rate_limit_def split: prod.splits)

lemma cache_disabled:
  assumes "\<not> cache_enabled rt"
  shows "get_text_cache rt now w p k = (Inr PNone, w)"
    and "get_file_cache rt w p k = (Inr PNone, w)"
    and "set_text_cache rt now w p k req resp uid = (Inr (), w)"
    and "set_file_cache rt w p k data ct = (Inr (), w)"
  using assms
  by (simp_all add: get_text_cache_def get_file_cache_def set_text_cache_def set_file_cache_def)

lemma chatgpt_call_disabled:
  assumes "\<not> cache_enabled rt"
  shows "snd (chatgpt_call rt now w key req uid msgs) = w\<lparr>backend_calls := backend_calls w + 1\<rparr>"
  using assms
  by (simp add: chatgpt_call_def Let_def cache_disabled split: sum.splits)



lemma set_file_cache_pg: "pg (snd (set_file_cache rt w p k data ct)) = pg w"
  by (simp add: set_file_cache_def split: prod.splits sum.splits)


lemma set_text_cache_s3: "s3 (snd (set_text_cache rt now w p k req resp uid)) = s3 w"
  by (simp add: set_text_cache_def split: prod.splits sum.splits)

lemma set_file_cache_case:
  "(case set_file_cache rt w p k data ct of (Inl e, w3) \<Rightarrow> f e w3 | (Inr u, w3) \<Rightarrow> g u w3)
     = g () (snd (set_file_cache rt w p k data ct))"
  by (simp add: set_file_cache_def split: prod.splits sum.splits)

lemma set_text_cache_case:
  "(case set_text_cache rt now w p k req resp uid of (Inl e, w3) \<Rightarrow> f e w3 | (Inr u, w3) \<Rightarrow> g u w3)
     = g () (snd (set_text_cache rt now w p k req resp uid))"
  by (simp add: set_text_cache_def split: prod.splits sum.splits)

lemma flux_fetch_world:
  "snd (flux_fetch rt w key payload rd image_id) = w\<lparr>backend_calls := backend_calls w + 1\<rparr>
   \<or> (\<exists>data. snd (flux_fetch rt w key payload rd image_id) =
         snd (set_file_cache rt (w\<lparr>backend_calls := backend_calls w + 1\<rparr>) ''flux'' key data ''image/png''))"
  by (auto simp: flux_fetch_def Let_def set_file_cache_case split: sum.splits)


lemma flux_call_world:
  "snd (flux_call rt w key payload) = w\<lparr>backend_calls := backend_calls w + 1\<rparr>
   \<or> snd (flux_call rt w key payload) = w\<lparr>backend_calls := backend_calls w + 2\<rparr>
   \<or> (\<exists>data. snd (flux_call rt w key payload) =
         snd (set_file_cache rt (w\<lparr>backend_calls := backend_calls w + 2\<rparr>) ''flux'' key data ''image/png''))"
proof -
  let ?w1 = "w\<lparr>backend_calls := backend_calls w + 1\<rparr>"
  have w2: "?w1\<lparr>backend_calls := backend_calls ?w1 + 1\<rparr> = w\<lparr>backend_calls := backend_calls w + 2\<rparr>"
    by simp
  have "snd (flux_call rt w key payload) = ?w1
        \<or> (\<exists>rd image_id. snd (flux_call rt w key payload) = snd (flux_fetch rt ?w1 key payload rd image_id))"
    by (auto simp: flux_call_def Let_def split: sum.splits)
  then show ?thesis
  proof
    assume "snd (flux_call rt w key payload) = ?w1"
    then show ?thesis by simp
  next
    assume "\<exists>rd image_id. snd (flux_call rt w key payload) = snd (flux_fetch rt ?w1 key payload rd image_id)"
    then obtain rd image_id
      where e: "snd (flux_call rt w key payload) = snd (flux_fetch rt ?w1 key payload rd image_id)"
      by blast
    show ?thesis
      using flux_fetch_world [of rt ?w1 key payload rd image_id] unfolding e w2 by blast
  qed
qed

lemma chatterbox_fetch_world:
  "snd (chatterbox_fetch rt w key payload rd audio_id) = w\<lparr>backend_calls := backend_calls w + 1\<rparr>
   \<or> (\<exists>data. snd (chatterbox_fetch rt w key payload rd audio_id) =
         snd (set_file_cache rt (w\<lparr>backend_calls := backend_calls w + 1\<rparr>) ''chatterbox'' key data ''audio/wav''))"
  by (auto simp: chatterbox_fetch_def Let_def set_file_cache_case split: sum.splits)

lemma chatterbox_call_world:
  "snd (chatterbox_call rt w key payload) = w\<lparr>backend_calls := backend_calls w + 1\<rparr>
   \<or> snd (chatterbox_call rt w key payload) = w\<lparr>backend_calls := backend_calls w + 2\<rparr>
   \<or> (\<exists>data. snd (chatterbox_call rt w key payload) =
         snd (set_file_cache rt (w\<lparr>backend_calls := backend_calls w + 2\<rparr>) ''chatterbox'' key data ''audio/wav''))"
proof -
  let ?w1 = "w\<lparr>backend_calls := backend_calls w + 1\<rparr>"
  have w2: "?w1\<lparr>backend_calls := backend_calls ?w1 + 1\<rparr> = w\<lparr>backend_calls := backend_calls w + 2\<rparr>"
    by simp
  have "snd (chatterbox_call rt w key payload) = ?w1
        \<or> (\<exists>rd audio_id. snd (chatterbox_call rt w key payload)
              = snd (chatterbox_fetch rt ?w1 key payload rd audio_id))"
    apply (simp add: chatterbox_call_def Let_def split: sum.splits)
    apply blast
    done
  then show ?thesis
  proof
    assume "snd (chatterbox_call rt w key payload) = ?w1"
    then show ?thesis by simp
  next
    assume "\<exists>rd audio_id. snd (chatterbox_call rt w key payload)
              = snd (chatterbox_fetch rt ?w1 key payload rd audio_id)"
    then obtain rd audio_id
      where e: "snd (chatterbox_call rt w key payload)
                  = snd (chatterbox_fetch rt ?w1 key payload rd audio_id)"
      by blast
    show ?thesis
      using chatterbox_fetch_world [of rt ?w1 key payload rd audio_id] unfolding e w2 by blast
  qed
qed


lemma chatgpt_try_rate_limited:
  assumes "\<not> fst (chatgpt_check_rate_limit rt now w uid)"
  shows "chatgpt_try rt now w req uid fr =
           (Inr (PDict (error_result ''Rate limit exceeded'' ''rate_limit'')),
            snd (chatgpt_check_rate_limit rt now w uid))"
  using assms by (cases "chatgpt_check_rate_limit rt now w uid"; cases fr) (simp_all add: chatgpt_try_def)

lemma chatgpt_try_no_key:
  assumes "fst (chatgpt_check_rate_limit rt now w uid)"
    and "generate_cache_key rt req uid = Inl e"
  shows "chatgpt_try rt now w req uid fr = (Inl e, snd (chatgpt_check_rate_limit rt now w uid))"
  using assms by (cases "chatgpt_check_rate_limit rt now w uid"; cases fr) (simp_all add: chatgpt_try_def)


lemma chatgpt_try_miss:
  assumes "fst (chatgpt_check_rate_limit rt now w uid)"
    and "generate_cache_key rt req uid = Inr key"
    and "(if \<not> fr then get_text_cache rt now (snd (chatgpt_check_rate_limit rt now w uid)) ''chatgpt'' key
          else (Inr PNone, snd (chatgpt_check_rate_limit rt now w uid))) = (Inr cached, w2)"
    and "\<not> truthy cached"
  shows "chatgpt_try rt now w req uid fr =
           (case chatgpt_messages rt req of
              Inl e \<Rightarrow> (Inl e, w2)
            | Inr (Inl invalid) \<Rightarrow> (Inr invalid, w2)
            | Inr (Inr messages) \<Rightarrow> chatgpt_call rt now w2 key req uid messages)"
  using assms by (cases "chatgpt_check_rate_limit rt now w uid"; cases fr) (simp_all add: chatgpt_try_def)

lemma chatgpt_process_request_snd:
  "snd (chatgpt_process_request rt now w req uid fr) = snd (chatgpt_try rt now w req uid fr)"
  by (simp add: chatgpt_process_request_def split: prod.splits sum.splits)

lemma flux_try_rate_limited:
  assumes "\<not> fst (flux_check_rate_limit now w uid)"
  shows "flux_try rt now w req uid fr =
           (Inr (PDict (error_result ''Rate limit exceeded for image generation'' ''rate_limit'')),
            snd (flux_check_rate_limit now w uid))"
  using assms by (cases "flux_check_rate_limit now w uid"; cases fr) (simp_all add: flux_try_def)

lemma flux_try_no_key:
  assumes "fst (flux_check_rate_limit now w uid)"
    and "generate_cache_key rt req uid = Inl e"
  shows "flux_try rt now w req uid fr = (Inl e, snd (flux_check_rate_limit now w uid))"
  using assms by (cases "flux_check_rate_limit now w uid"; cases fr) (simp_all add: flux_try_def)

lemma flux_try_miss:
  assumes "fst (flux_check_rate_limit now w uid)"
    and "generate_cache_key rt req uid = Inr key"
    and "(if \<not> fr then get_file_cache rt (snd (flux_check_rate_limit now w uid)) ''flux'' key
          else (Inr PNone, snd (flux_check_rate_limit now w uid))) = (Inr cached, w2)"
    and "\<not> truthy cached"
  shows "flux_try rt now w req uid fr =
           (case flux_payload req of
              Inl invalid \<Rightarrow> (Inr invalid, w2)
            | Inr payload \<Rightarrow> flux_call rt w2 key payload)"
  using assms by (cases "flux_check_rate_limit now w uid"; cases fr) (simp_all add: flux_try_def)

lemma flux_process_request_snd:
  "snd (flux_process_request rt now w req uid fr) = snd (flux_try rt now w req uid fr)"
  by (simp add: flux_process_request_def split: prod.splits sum.splits pyexn.splits)

lemma chatterbox_try_rate_limited:
  assumes "\<not> fst (chatterbox_check_rate_limit now w uid)"
  shows "chatterbox_try rt now w req uid fr =
           (Inr (PDict (error_result ''Rate limit exceeded for TTS generation'' ''rate_limit'')),
            snd (chatterbox_check_rate_limit now w uid))"
  using assms by (cases "chatterbox_check_rate_limit now w uid"; cases fr) (simp_all add: chatterbox_try_def)

lemma chatterbox_try_no_key:
  assumes "fst (chatterbox_check_rate_limit now w uid)"
    and "generate_cache_key rt req uid = Inl e"
  shows "chatterbox_try rt now w req uid fr = (Inl e, snd (chatterbox_check_rate_limit now w uid))"
  using assms by (cases "chatterbox_check_rate_limit now w uid"; cases fr) (simp_all add: chatterbox_try_def)

lemma chatterbox_try_miss:
  assumes "fst (chatterbox_check_rate_limit now w uid)"
    and "generate_cache_key rt req uid = Inr key"
    and "(if \<not> fr then get_file_cache rt (snd (chatterbox_check_rate_limit now w uid)) ''chatterbox'' key
          else (Inr PNone, snd (chatterbox_check_rate_limit now w uid))) = (Inr cached, w2)"
    and "\<not> truthy cached"
  shows "chatterbox_try rt now w req uid fr =
           (case chatterbox_payload rt req of
              Inl e \<Rightarrow> (Inl e, w2)
            | Inr (Inl invalid) \<Rightarrow> (Inr invalid, w2)
            | Inr (Inr payload) \<Rightarrow> chatterbox_call rt w2 key payload)"
  using assms by (cases "chatterbox_check_rate_limit now w uid"; cases fr) (simp_all add: chatterbox_try_def)

lemma chatterbox_process_request_snd:
  "snd (chatterbox_process_request rt now w req uid fr) = snd (chatterbox_try rt now w req uid fr)"
  by (simp add: chatterbox_process_request_def split: prod.splits sum.splits pyexn.splits)

lemma probe_disabled:
  assumes "\<not> cache_enabled rt"
  shows "(if \<not> fr then get_text_cache rt now w1 p key else (Inr PNone, w1)) = (Inr PNone, w1)"
    and "(if \<not> fr then get_file_cache rt w1 p key else (Inr PNone, w1)) = (Inr PNone, w1)"
  using assms by (simp_all add: cache_disabled)

lemma flux_call_disabled:
  assumes "\<not> cache_enabled rt"
  shows "snd (flux_call rt w key payload) = w\<lparr>backend_calls := backend_calls w + 1\<rparr>
       \<or> snd (flux_call rt w key payload) = w\<lparr>backend_calls := backend_calls w + 2\<rparr>"
  using flux_call_world [of rt w key payload] by (simp add: cache_disabled(4) [OF assms])

lemma chatterbox_call_disabled:
  assumes "\<not> cache_enabled rt"
  shows "snd (chatterbox_call rt w key payload) = w\<lparr>backend_calls := backend_calls w + 1\<rparr>
       \<or> snd (chatterbox_call rt w key payload) = w\<lparr>backend_calls := backend_calls w + 2\<rparr>"
  using chatterbox_call_world [of rt w key payload] by (simp add: cache_disabled(4) [OF assms])

lemma chatgpt_disabled_stores:
  assumes "\<not> cache_enabled rt"
  shows "pg (snd (chatgpt_try rt now w req uid fr)) = pg w
       \<and> s3 (snd (chatgpt_try rt now w req uid fr)) = s3 w"
proof (cases "fst (chatgpt_check_rate_limit rt now w uid)")
  case False
  then show ?thesis
    by (simp add: chatgpt_try_rate_limited chatgpt_check_rate_limit_frame)
next
  case True
  show ?thesis
  proof (cases "generate_cache_key rt req uid")
    case (Inl e)
    then show ?thesis
      by (simp add: chatgpt_try_no_key [OF True Inl] chatgpt_check_rate_limit_frame)
  next
    case (Inr key)
    note miss = chatgpt_try_miss [OF True Inr probe_disabled(1) [OF assms], of fr]
    show ?thesis
      by (simp add: miss chatgpt_call_disabled [OF assms] chatgpt_check_rate_limit_frame
            split: sum.splits)
  qed
qed

lemma chatgpt_disabled_reaches_backend:
  assumes "\<not> cache_enabled rt"
    and "fst (chatgpt_check_rate_limit rt now w uid)"
    and "json_serializable (PDict req)"
    and "chatgpt_messages rt req = Inr (Inr msgs)"
  shows "backend_calls (snd (chatgpt_try rt now w req uid fr)) = backend_calls w + 1"
proof -
  obtain key where key: "generate_cache_key rt req uid = Inr key"
    using assms(3) by (simp add: generate_cache_key_cases)
  note miss = chatgpt_try_miss [OF assms(2) key probe_disabled(1) [OF assms(1)], of fr]
  show ?thesis
    by (simp add: miss assms(4) chatgpt_call_disabled [OF assms(1)] chatgpt_check_rate_limit_frame)
qed

lemma flux_disabled_stores:
  assumes "\<not> cache_enabled rt"
  shows "pg (snd (flux_try rt now w req uid fr)) = pg w
       \<and> s3 (snd (flux_try rt now w req uid fr)) = s3 w"
proof (cases "fst (flux_check_rate_limit now w uid)")
  case False
  then show ?thesis
    by (simp add: flux_try_rate_limited flux_check_rate_limit_frame)
next
  case True
  show ?thesis
  proof (cases "generate_cache_key rt req uid")
    case (Inl e)
    then show ?thesis
      by (simp add: flux_try_no_key [OF True Inl] flux_check_rate_limit_frame)
  next
    case (Inr key)
    note miss = flux_try_miss [OF True Inr probe_disabled(2) [OF assms], of fr]
    show ?thesis
    proof (cases "flux_payload req")
      case (Inl invalid)
      then show ?thesis by (simp add: miss flux_check_rate_limit_frame)
    next
      case (Inr payload)
      show ?thesis
        using flux_call_disabled [OF assms, of "snd (flux_check_rate_limit now w uid)" key payload]
        by (auto simp: miss Inr flux_check_rate_limit_frame)
    qed
  qed
qed

lemma flux_disabled_reaches_backend:
  assumes "\<not> cache_enabled rt"
    and "fst (flux_check_rate_limit now w uid)"
    and "json_serializable (PDict req)"
    and "flux_payload req = Inr payload"
  shows "backend_calls w < backend_calls (snd (flux_try rt now w req uid fr))"
proof -
  obtain key where key: "generate_cache_key rt req uid = Inr key"
    using assms(3) by (simp add: generate_cache_key_cases)
  note miss = flux_try_miss [OF assms(2) key probe_disabled(2) [OF assms(1)], of fr]
  show ?thesis
    using flux_call_disabled [OF assms(1), of "snd (flux_check_rate_limit now w uid)" key payload]
    by (auto simp: miss assms(4) flux_check_rate_limit_frame)
qed

lemma chatterbox_disabled_stores:
  assumes "\<not> cache_enabled rt"
  shows "pg (snd (chatterbox_try rt now w req uid fr)) = pg w
       \<and> s3 (snd (chatterbox_try rt now w req uid fr)) = s3 w"
proof (cases "fst (chatterbox_check_rate_limit now w uid)")
  case False
  then show ?thesis
    by (simp add: chatterbox_try_rate_limited chatterbox_check_rate_limit_frame)
next
  case True
  show ?thesis
  proof (cases "generate_cache_key rt req uid")
    case (Inl e)
    then show ?thesis
      by (simp add: chatterbox_try_no_key [OF True Inl] chatterbox_check_rate_limit_frame)
  next
    case (Inr key)
    note miss = chatterbox_try_miss [OF True Inr probe_disabled(2) [OF assms], of fr]
    show ?thesis
    proof (cases "chatterbox_payload rt req")
      case (Inl e)
      then show ?thesis by (simp add: miss chatterbox_check_rate_limit_frame)
    next
      case (Inr validated)
      show ?thesis
      proof (cases validated)
        case (Inl invalid)
        then show ?thesis by (simp add: miss Inr chatterbox_check_rate_limit_frame)
      next
        case (Inr payload)
        show ?thesis
          using chatterbox_call_disabled [OF assms,
              of "snd (chatterbox_check_rate_limit now w uid)" key payload]
          by (auto simp: miss \<open>chatterbox_payload rt req = Inr validated\<close> Inr
                chatterbox_check_rate_limit_frame)
      qed
    qed
  qed
qed

lemma chatterbox_disabled_reaches_backend:
  assumes "\<not> cache_enabled rt"
    and "fst (chatterbox_check_rate_limit now w uid)"
    and "json_serializable (PDict req)"
    and "chatterbox_payload rt req = Inr (Inr payload)"
  shows "backend_calls w < backend_calls (snd (chatterbox_try rt now w req uid fr))"
proof -
  obtain key where key: "generate_cache_key rt req uid = Inr key"
    using assms(3) by (simp add: generate_cache_key_cases)
  note miss = chatterbox_try_miss [OF assms(2) key probe_disabled(2) [OF assms(1)], of fr]
  show ?thesis
    using chatterbox_call_disabled [OF assms(1),
        of "snd (chatterbox_check_rate_limit now w uid)" key payload]
    by (auto simp: miss assms(4) chatterbox_check_rate_limit_frame)
qed

text \<open>
  C10. With \<^verbatim>\<open>cache_enabled\<close> false, the two gets return \<^verbatim>\<open>None\<close> and the two puts
  return, each leaving the whole process state as it was, call counters of the stores
  included. So no request touches a store, whatever it is; and an admitted request that
  serialises and passes the adapter's validation reaches the provider (one call for the
  text adapter, at least one for the image and speech adapters).
\<close>

theorem caching_disabled:
  assumes "\<not> cache_enabled rt"
  shows "get_text_cache rt now w p k = (Inr PNone, w)
       \<and> get_file_cache rt w p k = (Inr PNone, w)
       \<and> set_text_cache rt now w p k req resp uid = (Inr (), w)
       \<and> set_file_cache rt w p k data ct = (Inr (), w)
       \<and> pg (snd (chatgpt_process_request rt now w req uid fr)) = pg w
       \<and> s3 (snd (chatgpt_process_request rt now w req uid fr)) = s3 w
       \<and> pg (snd (flux_process_request rt now w req uid fr)) = pg w
       \<and> s3 (snd (flux_process_request rt now w req uid fr)) = s3 w
       \<and> pg (snd (chatterbox_process_request rt now w req uid fr)) = pg w
       \<and> s3 (snd (chatterbox_process_request rt now w req uid fr)) = s3 w
       \<and> (fst (chatgpt_check_rate_limit rt now w uid) \<and> json_serializable (PDict req)
            \<and> (\<exists>messages. chatgpt_messages rt req = Inr (Inr messages)) \<longrightarrow>
          backend_calls (snd (chatgpt_process_request rt now w req uid fr)) = backend_calls w + 1)
       \<and> (fst (flux_check_rate_limit now w uid) \<and> json_serializable (PDict req)
            \<and> (\<exists>payload. flux_payload req = Inr payload) \<longrightarrow>
          backend_calls w < backend_calls (snd (flux_process_request rt now w req uid fr)))
       \<and> (fst (chatterbox_check_rate_limit now w uid) \<and> json_serializable (PDict req)
            \<and> (\<exists>payload. chatterbox_payload rt req = Inr (Inr payload)) \<longrightarrow>
          backend_calls w < backend_calls (snd (chatterbox_process_request rt now w req uid fr)))"
proof -
  note d = cache_disabled [OF assms]
  have gpt: "fst (chatgpt_check_rate_limit rt now w uid) \<and> json_serializable (PDict req)
            \<and> (\<exists>messages. chatgpt_messages rt req = Inr (Inr messages)) \<longrightarrow>
          backend_calls (snd (chatgpt_process_request rt now w req uid fr)) = backend_calls w + 1"
    unfolding chatgpt_process_request_snd
    using chatgpt_disabled_reaches_backend [OF assms] by blast
  have flux: "fst (flux_check_rate_limit now w uid) \<and> json_serializable (PDict req)
            \<and> (\<exists>payload. flux_payload req = Inr payload) \<longrightarrow>
          backend_calls w < backend_calls (snd (flux_process_request rt now w req uid fr))"
    unfolding flux_process_request_snd
    using flux_disabled_reaches_backend [OF assms] by blast
  have tts: "fst (chatterbox_check_rate_limit now w uid) \<and> json_serializable (PDict req)
            \<and> (\<exists>payload. chatterbox_payload rt req = Inr (Inr payload)) \<longrightarrow>
          backend_calls w < backend_calls (snd (chatterbox_process_request rt now w req uid fr))"
    unfolding chatterbox_process_request_snd
    using chatterbox_disabled_reaches_backend [OF assms] by blast
  show ?thesis
    using gpt flux tts
    by (simp only: d chatgpt_process_request_snd flux_process_request_snd
          chatterbox_process_request_snd chatgpt_disabled_stores [OF assms]
          flux_disabled_stores [OF assms] chatterbox_disabled_stores [OF assms] simp_thms)
qed

theorem caching_disabled_witness:
  "\<not> cache_enabled test_runtime_uncached
   \<and> get_text_cache test_runtime_uncached 100 test_world_cached ''chatgpt'' ''k1''
       = (Inr PNone, test_world_cached)
   \<and> set_file_cache test_runtime_uncached test_world_cached ''chatterbox'' ''k1'' ''RIFF'' ''audio/wav''
       = (Inr (), test_world_cached)
   \<and> fst (chatgpt_check_rate_limit test_runtime_uncached 100 test_world_cached ''u1'')
   \<and> json_serializable (PDict [(''prompt'', PStr ''hello'')])
   \<and> (\<exists>messages. chatgpt_messages test_runtime_uncached [(''prompt'', PStr ''hello'')]
                      = Inr (Inr messages))
   \<and> backend_calls (snd (chatgpt_process_request test_runtime_uncached 100 test_world_cached
                           [(''prompt'', PStr ''hello'')] ''u1'' False))
       = backend_calls test_world_cached + 1
   \<and> pg (snd (chatgpt_process_request test_runtime_uncached 100 test_world_cached
                 [(''prompt'', PStr ''hello'')] ''u1'' False)) = pg test_world_cached"
proof -
  have h: "\<not> cache_enabled test_runtime_uncached"
    by (simp add: test_runtime_uncached_def)
  have a: "fst (chatgpt_check_rate_limit test_runtime_uncached 100 test_world_cached ''u1'')"
    by (simp add: chatgpt_check_rate_limit_def check_rate_limit_def test_world_cached_def
          test_world_def test_runtime_uncached_def test_runtime_def)
  have s: "json_serializable (PDict [(''prompt'', PStr ''hello'')])" by simp
  have m: "\<exists>messages. chatgpt_messages test_runtime_uncached [(''prompt'', PStr ''hello'')]
                      = Inr (Inr messages)"
    by (simp add: chatgpt_messages_def chatgpt_context_text_def lookup_context_def dict_get_def
          test_runtime_uncached_def test_runtime_def)
  show ?thesis
    using h a s m
      caching_disabled [OF h, of 100 test_world_cached "''chatgpt''" "''k1''"
        "[(''prompt'', PStr ''hello'')]" "[]" "''u1''" "''RIFF''" "''audio/wav''" False]
      caching_disabled [OF h, of 100 test_world_cached "''chatterbox''" "''k1''"
        "[(''prompt'', PStr ''hello'')]" "[]" "''u1''" "''RIFF''" "''audio/wav''" False]
    by blast
qed

lemma get_file_cache_miss:
  assumes "blob_objects (s3 w) p key = None"
  shows "fst (get_file_cache rt w p key) = Inr PNone"
    and "backend_calls (snd (get_file_cache rt w p key)) = backend_calls w"
    and "pg (snd (get_file_cache rt w p key)) = pg w"
  using assms
  by (auto simp: get_file_cache_def minio_get_file_cache_def blob_objects_def Let_def
           split: option.splits)

lemma probe_file_miss:
  assumes "blob_objects (s3 w) p key = None"
  shows "(if \<not> fr then get_file_cache rt w p key else (Inr PNone, w))
           = (Inr PNone, if \<not> fr then snd (get_file_cache rt w p key) else w)"
  using get_file_cache_miss(1) [OF assms, of rt]
  by (cases "get_file_cache rt w p key") auto

lemma supported_language_codes:
  "map fst supported_languages =
     [''ar'', ''da'', ''de'', ''el'', ''en'', ''es'', ''fi'', ''fr'', ''he'', ''hi'', ''it'', ''ja'',
      ''ko'', ''ms'', ''nl'', ''no'', ''pl'', ''pt'', ''ru'', ''sv'', ''sw'', ''tr'', ''zh'']"
  by (simp add: supported_languages_def)

lemma chatterbox_payload_invalid_language:
  assumes "truthy (dict_get req ''text'' PNone)"
    and "\<not> validate_language (dict_get req ''language'' (PStr ''en''))"
  shows "chatterbox_payload rt req =
           Inr (Inl (PDict
             [(''error'', PStr (''Unsupported language: ''
                               @ format_value rt (dict_get req ''language'' (PStr ''en'')))),
              (''error_type'', PStr ''invalid_language''),
              (''from_cache'', PBool False),
              (''supported_languages'', PList (map PStr (map fst supported_languages)))]))"
  using assms by (simp add: chatterbox_payload_def Let_def comp_def)

text \<open>
  C5, amended. A request to the speech adapter that is admitted, serialises, has no
  cached blob under its fingerprint, carries a non-empty text and a language outside the
  supported codes gets the \<^verbatim>\<open>invalid_language\<close> result with the 23 supported codes, and
  no call to the provider is made.
\<close>

theorem invalid_language_rejected:
  assumes "fst (chatterbox_check_rate_limit now w uid)"
    and "generate_cache_key rt req uid = Inr key"
    and "blob_objects (s3 w) ''chatterbox'' key = None"
    and "truthy (dict_get req ''text'' PNone)"
    and "\<not> validate_language (dict_get req ''language'' (PStr ''en''))"
  shows "fst (chatterbox_process_request rt now w req uid fr) =
           PDict
             [(''error'', PStr (''Unsupported language: ''
                               @ format_value rt (dict_get req ''language'' (PStr ''en'')))),
              (''error_type'', PStr ''invalid_language''),
              (''from_cache'', PBool False),
              (''supported_languages'', PList (map PStr
                 [''ar'', ''da'', ''de'', ''el'', ''en'', ''es'', ''fi'', ''fr'', ''he'', ''hi'',
                  ''it'', ''ja'', ''ko'', ''ms'', ''nl'', ''no'', ''pl'', ''pt'', ''ru'', ''sv'',
                  ''sw'', ''tr'', ''zh'']))]
       \<and> backend_calls (snd (chatterbox_process_request rt now w req uid fr)) = backend_calls w"
proof -
  let ?w1 = "snd (chatterbox_check_rate_limit now w uid)"
  have none: "blob_objects (s3 ?w1) ''chatterbox'' key = None"
    using assms(3) by (simp add: chatterbox_check_rate_limit_frame)
  note miss = chatterbox_try_miss [OF assms(1,2) probe_file_miss [OF none], where fr = fr]
  have body: "chatterbox_try rt now w req uid fr =
      (Inr (PDict
             [(''error'', PStr (''Unsupported language: ''
                               @ format_value rt (dict_get req ''language'' (PStr ''en'')))),
              (''error_type'', PStr ''invalid_language''),
              (''from_cache'', PBool False),
              (''supported_languages'', PList (map PStr (map fst supported_languages)))]),
       if \<not> fr then snd (get_file_cache rt ?w1 ''chatterbox'' key) else ?w1)"
    using miss by (simp add: chatterbox_payload_invalid_language [OF assms(4,5)])
  have calls: "backend_calls (if \<not> fr then snd (get_file_cache rt ?w1 ''chatterbox'' key) else ?w1)
                 = backend_calls w"
    using get_file_cache_miss(2) [OF none, of rt]
    by (simp add: chatterbox_check_rate_limit_frame)
  show ?thesis
    unfolding chatterbox_process_request_def body supported_language_codes using calls by simp
qed

text \<open>
  C5, as stated, fails for a request without text: the text is validated before the
  language, so \<^verbatim>\<open>{text: "", language: "xx"}\<close>, admitted and not cached, gets the
  \<^verbatim>\<open>missing_text\<close> result.
\<close>

theorem invalid_language_needs_text_counterexample:
  "\<not> validate_language (dict_get [(''text'', PStr ''''), (''language'', PStr ''xx'')] ''language'' (PStr ''en''))
   \<and> fst (chatterbox_check_rate_limit 100 test_world ''u1'')
   \<and> fst (chatterbox_process_request test_runtime 100 test_world
            [(''text'', PStr ''''), (''language'', PStr ''xx'')] ''u1'' False)
       = PDict (error_result ''Text is required for TTS generation'' ''missing_text'')"
proof -
  have a: "fst (chatterbox_check_rate_limit 100 test_world ''u1'')"
    by (simp add: chatterbox_check_rate_limit_def check_rate_limit_def test_world_def)
  have k: "generate_cache_key test_runtime [(''text'', PStr ''''), (''language'', PStr ''xx'')] ''u1''
             = Inr (sha256_hexdigest test_runtime (json_text (float_repr test_runtime) True
                  (PDict [(''request'', PDict [(''text'', PStr ''''), (''language'', PStr ''xx'')]),
                          (''user_id'', PStr ''u1'')])))"
    by (simp add: generate_cache_key_cases)
  have none: "blob_objects (s3 (snd (chatterbox_check_rate_limit 100 test_world ''u1''))) ''chatterbox'' key = None"
    for key
    by (simp add: chatterbox_check_rate_limit_frame test_world_def test_minio_def blob_objects_def
          bucket_name_of_def)
  note miss = chatterbox_try_miss [OF a k probe_file_miss [OF none], where fr = False]
  have p: "chatterbox_payload test_runtime [(''text'', PStr ''''), (''language'', PStr ''xx'')]
             = Inr (Inl (PDict (error_result ''Text is required for TTS generation'' ''missing_text'')))"
    by (simp add: chatterbox_payload_def dict_get_def)
  have v: "\<not> validate_language (dict_get [(''text'', PStr ''''), (''language'', PStr ''xx'')] ''language'' (PStr ''en''))"
    by (simp add: validate_language_def supported_languages_def dict_get_def)
  show ?thesis
    using a v miss by (simp add: chatterbox_process_request_def p)
qed

theorem invalid_language_rejected_witness:
  "fst (chatterbox_check_rate_limit 100 test_world ''u1'')
   \<and> json_serializable (PDict [(''text'', PStr ''hi''), (''language'', PStr ''xx'')])
   \<and> truthy (dict_get [(''text'', PStr ''hi''), (''language'', PStr ''xx'')] ''text'' PNone)
   \<and> \<not> validate_language (dict_get [(''text'', PStr ''hi''), (''language'', PStr ''xx'')] ''language'' (PStr ''en''))
   \<and> fst (chatterbox_process_request test_runtime 100 test_world
            [(''text'', PStr ''hi''), (''language'', PStr ''xx'')] ''u1'' False) =
        PDict
             [(''error'', PStr ''Unsupported language: xx''),
              (''error_type'', PStr ''invalid_language''),
              (''from_cache'', PBool False),
              (''supported_languages'', PList (map PStr
                 [''ar'', ''da'', ''de'', ''el'', ''en'', ''es'', ''fi'', ''fr'', ''he'', ''hi'',
                  ''it'', ''ja'', ''ko'', ''ms'', ''nl'', ''no'', ''pl'', ''pt'', ''ru'', ''sv'',
                  ''sw'', ''tr'', ''zh'']))]
   \<and> backend_calls (snd (chatterbox_process_request test_runtime 100 test_world
            [(''text'', PStr ''hi''), (''language'', PStr ''xx'')] ''u1'' False)) = 0"
proof -
  let ?req = "[(''text'', PStr ''hi''), (''language'', PStr ''xx'')]"
  have a: "fst (chatterbox_check_rate_limit 100 test_world ''u1'')"
    by (simp add: chatterbox_check_rate_limit_def check_rate_limit_def test_world_def)
  have s: "json_serializable (PDict ?req)" by simp
  have k: "generate_cache_key test_runtime ?req ''u1''
             = Inr (sha256_hexdigest test_runtime (json_text (float_repr test_runtime) True
                  (PDict [(''request'', PDict ?req), (''user_id'', PStr ''u1'')])))"
    by (simp add: generate_cache_key_cases)
  have none: "blob_objects (s3 test_world) ''chatterbox'' key = None" for key
    by (simp add: test_world_def test_minio_def blob_objects_def bucket_name_of_def)
  have t: "truthy (dict_get ?req ''text'' PNone)" by (simp add: dict_get_def)
  have v: "\<not> validate_language (dict_get ?req ''language'' (PStr ''en''))"
    by (simp add: validate_language_def supported_languages_def dict_get_def)
  have f: "format_value test_runtime (dict_get ?req ''language'' (PStr ''en'')) = ''xx''"
    by (simp add: format_value_def dict_get_def)
  have b: "backend_calls test_world = 0" by (simp add: test_world_def)
  show ?thesis
    using a s t v invalid_language_rejected [OF a k none t v, of False]
    unfolding f b by simp
qed

lemma chatgpt_not_serializable:
  assumes "\<not> json_serializable (PDict req)" and "fst (chatgpt_check_rate_limit rt now w uid)"
  shows "chatgpt_process_request rt now w req uid fr =
           (PDict (error_result ''Object of type bytes is not JSON serializable'' ''api_error''),
            snd (chatgpt_check_rate_limit rt now w uid))"
proof -
  have k: "generate_cache_key rt req uid
             = Inl (TypeError ''Object of type bytes is not JSON serializable'')"
    using assms(1) by (simp add: generate_cache_key_cases)
  show ?thesis
    by (simp add: chatgpt_process_request_def chatgpt_try_no_key [OF assms(2) k])
qed

lemma flux_not_serializable:
  assumes "\<not> json_serializable (PDict req)" and "fst (flux_check_rate_limit now w uid)"
  shows "flux_process_request rt now w req uid fr =
           (PDict (error_result ''Object of type bytes is not JSON serializable'' ''api_error''),
            snd (flux_check_rate_limit now w uid))"
proof -
  have k: "generate_cache_key rt req uid
             = Inl (TypeError ''Object of type bytes is not JSON serializable'')"
    using assms(1) by (simp add: generate_cache_key_cases)
  show ?thesis
    by (simp add: flux_process_request_def flux_try_no_key [OF assms(2) k])
qed

lemma chatterbox_not_serializable:
  assumes "\<not> json_serializable (PDict req)" and "fst (chatterbox_check_rate_limit now w uid)"
  shows "chatterbox_process_request rt now w req uid fr =
           (PDict (error_result ''Object of type bytes is not JSON serializable'' ''api_error''),
            snd (chatterbox_check_rate_limit now w uid))"
proof -
  have k: "generate_cache_key rt req uid
             = Inl (TypeError ''Object of type bytes is not JSON serializable'')"
    using assms(1) by (simp add: generate_cache_key_cases)
  show ?thesis
    by (simp add: chatterbox_process_request_def chatterbox_try_no_key [OF assms(2) k])
qed

text \<open>
  C9, amended. The fingerprint is computed without touching the process state, and
  serialisation is its only failure: it is the digest when the parameters serialise and
  a \<open>TypeError\<close> otherwise. No \<^verbatim>\<open>InvalidInput\<close> error exists: the \<open>TypeError\<close> leaves
  \<^verbatim>\<open>generate_cache_key\<close>, and the handler of every adapter's \<^verbatim>\<open>process_request\<close> turns it,
  like any other exception, into a result with \<^verbatim>\<open>error_type\<close> \<^verbatim>\<open>"api_error"\<close>; the
  admission has been recorded by then, and neither a store nor the provider is reached.
\<close>

theorem fingerprint_failure_is_api_error:
  "generate_cache_key rt req uid =
     (if json_serializable (PDict req)
      then Inr (sha256_hexdigest rt (json_text (float_repr rt) True
                  (PDict [(''request'', PDict req), (''user_id'', PStr uid)])))
      else Inl (TypeError ''Object of type bytes is not JSON serializable''))
   \<and> (\<not> json_serializable (PDict req) \<and> fst (chatgpt_check_rate_limit rt now w uid) \<longrightarrow>
        chatgpt_process_request rt now w req uid fr =
          (PDict (error_result ''Object of type bytes is not JSON serializable'' ''api_error''),
           snd (chatgpt_check_rate_limit rt now w uid)))
   \<and> (\<not> json_serializable (PDict req) \<and> fst (flux_check_rate_limit now w uid) \<longrightarrow>
        flux_process_request rt now w req uid fr =
          (PDict (error_result ''Object of type bytes is not JSON serializable'' ''api_error''),
           snd (flux_check_rate_limit now w uid)))
   \<and> (\<not> json_serializable (PDict req) \<and> fst (chatterbox_check_rate_limit now w uid) \<longrightarrow>
        chatterbox_process_request rt now w req uid fr =
          (PDict (error_result ''Object of type bytes is not JSON serializable'' ''api_error''),
           snd (chatterbox_check_rate_limit now w uid)))"
  using chatgpt_not_serializable [of req rt now w uid fr]
    flux_not_serializable [of req now w uid rt fr]
    chatterbox_not_serializable [of req now w uid rt fr]
    generate_cache_key_cases [of rt req uid]
  by blast

theorem fingerprint_failure_is_api_error_witness:
  "\<not> json_serializable (PDict [(''prompt'', PBytes ''x'')])
   \<and> fst (chatgpt_check_rate_limit test_runtime 100 test_world ''u1'')
   \<and> generate_cache_key test_runtime [(''prompt'', PBytes ''x'')] ''u1''
       = Inl (TypeError ''Object of type bytes is not JSON serializable'')
   \<and> chatgpt_process_request test_runtime 100 test_world [(''prompt'', PBytes ''x'')] ''u1'' False =
          (PDict (error_result ''Object of type bytes is not JSON serializable'' ''api_error''),
           snd (chatgpt_check_rate_limit test_runtime 100 test_world ''u1''))"
proof -
  have n: "\<not> json_serializable (PDict [(''prompt'', PBytes ''x'')])" by simp
  have a: "fst (chatgpt_check_rate_limit test_runtime 100 test_world ''u1'')"
    by (simp add: chatgpt_check_rate_limit_def check_rate_limit_def test_world_def test_runtime_def)
  show ?thesis
    using n a fingerprint_failure_is_api_error [of test_runtime "[(''prompt'', PBytes ''x'')]"
        "''u1''" 100 test_world False]
    by presburger
qed

text \<open>
  C9, as stated, fails: a request with a value that does not serialise gets the
  \<^verbatim>\<open>api_error\<close> result, the very result a failure of the provider with the same message
  gets.
\<close>

theorem fingerprint_failure_untyped_counterexample:
  "fst (chatgpt_process_request test_runtime 100 test_world [(''prompt'', PBytes ''x'')] ''u1'' False)
     = PDict [(''error'', PStr ''Object of type bytes is not JSON serializable''),
              (''error_type'', PStr ''api_error''), (''from_cache'', PBool False)]
   \<and> fst (chatgpt_process_request
            (test_runtime\<lparr>openai_create :=
               (\<lambda>kwargs. Inl (OtherException ''Object of type bytes is not JSON serializable''))\<rparr>)
            100 test_world [(''prompt'', PStr ''hello'')] ''u1'' False)
     = PDict [(''error'', PStr ''Object of type bytes is not JSON serializable''),
              (''error_type'', PStr ''api_error''), (''from_cache'', PBool False)]"
proof -
  let ?rt = "test_runtime\<lparr>openai_create :=
               (\<lambda>kwargs. Inl (OtherException ''Object of type bytes is not JSON serializable''))\<rparr>"
  have a: "fst (chatgpt_check_rate_limit test_runtime 100 test_world ''u1'')"
    by (simp add: chatgpt_check_rate_limit_def check_rate_limit_def test_world_def test_runtime_def)
  have a': "fst (chatgpt_check_rate_limit ?rt 100 test_world ''u1'')"
    by (simp add: chatgpt_check_rate_limit_def check_rate_limit_def test_world_def test_runtime_def)
  have one: "fst (chatgpt_process_request test_runtime 100 test_world [(''prompt'', PBytes ''x'')] ''u1'' False)
     = PDict [(''error'', PStr ''Object of type bytes is not JSON serializable''),
              (''error_type'', PStr ''api_error''), (''from_cache'', PBool False)]"
    by (simp add: chatgpt_not_serializable [OF _ a] error_result_def)
  have k: "generate_cache_key ?rt [(''prompt'', PStr ''hello'')] ''u1''
             = Inr (sha256_hexdigest ?rt (json_text (float_repr ?rt) True
                  (PDict [(''request'', PDict [(''prompt'', PStr ''hello'')]),
                          (''user_id'', PStr ''u1'')])))"
    by (simp add: generate_cache_key_cases)
  have g: "fst (get_text_cache ?rt 100 (snd (chatgpt_check_rate_limit ?rt 100 test_world ''u1''))
                 ''chatgpt'' key) = Inr PNone" for key
    by (simp add: get_text_cache_def get_cache_def chatgpt_check_rate_limit_frame Let_def
          test_world_def test_database_def table_name_of_def)
  have m: "chatgpt_messages ?rt [(''prompt'', PStr ''hello'')] =
             Inr (Inr [PDict [(''role'', PStr ''system''), (''content'', PStr ''Reply in Persian.'')],
                       PDict [(''role'', PStr ''user''), (''content'', PStr ''hello'')]])"
    by (simp add: chatgpt_messages_def chatgpt_context_text_def lookup_context_def dict_get_def
          test_runtime_def)
  have p: "(if \<not> False then get_text_cache ?rt 100 (snd (chatgpt_check_rate_limit ?rt 100 test_world ''u1''))
                 ''chatgpt'' key
            else (Inr PNone, snd (chatgpt_check_rate_limit ?rt 100 test_world ''u1'')))
           = (Inr PNone, snd (get_text_cache ?rt 100 (snd (chatgpt_check_rate_limit ?rt 100 test_world ''u1''))
                 ''chatgpt'' key))" for key
    using g [of key] by (simp add: prod_eq_iff)
  note miss = chatgpt_try_miss [OF a' k p]
  have two: "fst (chatgpt_process_request ?rt 100 test_world [(''prompt'', PStr ''hello'')] ''u1'' False)
     = PDict [(''error'', PStr ''Object of type bytes is not JSON serializable''),
              (''error_type'', PStr ''api_error''), (''from_cache'', PBool False)]"
    by (simp add: chatgpt_process_request_def miss m chatgpt_call_def error_result_def)
  show ?thesis using one two by simp
qed




























section \<open>Store failures\<close>

lemma chatgpt_call_result:
  "fst (chatgpt_call rt now w key req uid messages) =
     fst (chatgpt_call (rt\<lparr>cache_enabled := False\<rparr>) now w' key req uid messages)"
  by (simp add: chatgpt_call_def Let_def set_text_cache_case split: sum.splits)

lemma uncached_same:
  "format_value (rt\<lparr>cache_enabled := False\<rparr>) v = format_value rt v"
  "flux_result (rt\<lparr>cache_enabled := False\<rparr>) payload rd file_data = flux_result rt payload rd file_data"
  "chatterbox_result (rt\<lparr>cache_enabled := False\<rparr>) payload rd file_data
     = chatterbox_result rt payload rd file_data"
  "chatgpt_messages (rt\<lparr>cache_enabled := False\<rparr>) req = chatgpt_messages rt req"
  "chatterbox_payload (rt\<lparr>cache_enabled := False\<rparr>) req = chatterbox_payload rt req"
  "generate_cache_key (rt\<lparr>cache_enabled := False\<rparr>) req uid = generate_cache_key rt req uid"
  "chatgpt_check_rate_limit (rt\<lparr>cache_enabled := False\<rparr>) now w uid
     = chatgpt_check_rate_limit rt now w uid"
  by (simp_all add: format_value_def flux_result_def chatterbox_result_def chatgpt_messages_def
        chatgpt_context_text_def lookup_context_def chatterbox_payload_def generate_cache_key_def
        json_dumps_def chatgpt_check_rate_limit_def
      cong: sum.case_cong pyval.case_cong option.case_cong if_cong)

lemma flux_fetch_result:
  "fst (flux_fetch rt w key payload rd image_id) =
     fst (flux_fetch (rt\<lparr>cache_enabled := False\<rparr>) w' key payload rd image_id)"
  by (simp add: flux_fetch_def uncached_same Let_def set_file_cache_case split: sum.splits)

lemma flux_call_result:
  "fst (flux_call rt w key payload) = fst (flux_call (rt\<lparr>cache_enabled := False\<rparr>) w' key payload)"
  using flux_fetch_result
  by (simp add: flux_call_def Let_def split: sum.splits)

lemma chatterbox_fetch_result:
  "fst (chatterbox_fetch rt w key payload rd audio_id) =
     fst (chatterbox_fetch (rt\<lparr>cache_enabled := False\<rparr>) w' key payload rd audio_id)"
  by (simp add: chatterbox_fetch_def uncached_same Let_def set_file_cache_case split: sum.splits)

lemma chatterbox_call_result:
  "fst (chatterbox_call rt w key payload) =
     fst (chatterbox_call (rt\<lparr>cache_enabled := False\<rparr>) w' key payload)"
  using chatterbox_fetch_result
  by (simp add: chatterbox_call_def Let_def split: sum.splits)


lemma get_text_cache_fault:
  assumes "db_fault (pg w) = Some e"
  shows "fst (get_text_cache rt now w p key) = Inr PNone"
  using assms by (simp add: get_text_cache_def get_cache_def Let_def)

lemma get_file_cache_fault:
  assumes "s3_fault (s3 w) = Some e"
  shows "fst (get_file_cache rt w p key) = Inr PNone"
  using assms by (simp add: get_file_cache_def minio_get_file_cache_def Let_def)

lemma probe_text_fault:
  assumes "db_fault (pg w) = Some e"
  shows "(if \<not> fr then get_text_cache rt now w p key else (Inr PNone, w))
           = (Inr PNone, if \<not> fr then snd (get_text_cache rt now w p key) else w)"
  using get_text_cache_fault [OF assms, of rt now p key]
  by (cases "get_text_cache rt now w p key") auto

lemma probe_file_fault:
  assumes "s3_fault (s3 w) = Some e"
  shows "(if \<not> fr then get_file_cache rt w p key else (Inr PNone, w))
           = (Inr PNone, if \<not> fr then snd (get_file_cache rt w p key) else w)"
  using get_file_cache_fault [OF assms, of rt p key]
  by (cases "get_file_cache rt w p key") auto

lemma chatgpt_process_request_fst:
  "fst (chatgpt_process_request rt now w req uid fr) =
     (case fst (chatgpt_try rt now w req uid fr) of
        Inl e \<Rightarrow> PDict (error_result (exc_str e) ''api_error'')
      | Inr result \<Rightarrow> result)"
  by (simp add: chatgpt_process_request_def split: prod.splits sum.splits)

lemma flux_process_request_fst:
  "fst (flux_process_request rt now w req uid fr) =
     (case fst (flux_try rt now w req uid fr) of
        Inl (TimeoutException m) \<Rightarrow> PDict (error_result ''Image generation timeout'' ''timeout'')
      | Inl e \<Rightarrow> PDict (error_result (exc_str e) ''api_error'')
      | Inr result \<Rightarrow> result)"
  by (simp add: flux_process_request_def split: prod.splits sum.splits pyexn.splits)

lemma chatterbox_process_request_fst:
  "fst (chatterbox_process_request rt now w req uid fr) =
     (case fst (chatterbox_try rt now w req uid fr) of
        Inl (TimeoutException m) \<Rightarrow> PDict (error_result ''TTS generation timeout'' ''timeout'')
      | Inl e \<Rightarrow> PDict (error_result (exc_str e) ''api_error'')
      | Inr result \<Rightarrow> result)"
  by (simp add: chatterbox_process_request_def split: prod.splits sum.splits pyexn.splits)

lemma chatgpt_store_down:
  assumes "db_fault (pg w) = Some e"
  shows "fst (chatgpt_try rt now w req uid fr)
           = fst (chatgpt_try (rt\<lparr>cache_enabled := False\<rparr>) now w req uid fr)"
proof (cases "fst (chatgpt_check_rate_limit rt now w uid)")
  case False
  then show ?thesis
    by (simp add: chatgpt_try_rate_limited uncached_same)
next
  case True
  then have True': "fst (chatgpt_check_rate_limit (rt\<lparr>cache_enabled := False\<rparr>) now w uid)"
    by (simp add: uncached_same)
  show ?thesis
  proof (cases "generate_cache_key rt req uid")
    case (Inl x)
    then have "generate_cache_key (rt\<lparr>cache_enabled := False\<rparr>) req uid = Inl x"
      by (simp add: uncached_same)
    then show ?thesis
      by (simp add: chatgpt_try_no_key [OF True Inl] chatgpt_try_no_key [OF True'])
  next
    case (Inr key)
    then have key': "generate_cache_key (rt\<lparr>cache_enabled := False\<rparr>) req uid = Inr key"
      by (simp add: uncached_same)
    have down: "db_fault (pg (snd (chatgpt_check_rate_limit rt now w uid))) = Some e"
      using assms by (simp add: chatgpt_check_rate_limit_frame)
    have off: "\<not> cache_enabled (rt\<lparr>cache_enabled := False\<rparr>)" by simp
    note l = chatgpt_try_miss [OF True Inr probe_text_fault [OF down], where fr = fr]
    note r = chatgpt_try_miss [OF True' key' probe_disabled(1) [OF off], where fr = fr]
    show ?thesis
      using chatgpt_call_result [of rt now _ key req uid]
      by (simp add: l r uncached_same split: sum.splits)
  qed
qed


lemma flux_store_down:
  assumes "s3_fault (s3 w) = Some e"
  shows "fst (flux_try rt now w req uid fr)
           = fst (flux_try (rt\<lparr>cache_enabled := False\<rparr>) now w req uid fr)"
proof (cases "fst (flux_check_rate_limit now w uid)")
  case False
  then show ?thesis
    by (simp add: flux_try_rate_limited)
next
  case True
  show ?thesis
  proof (cases "generate_cache_key rt req uid")
    case (Inl x)
    then have k': "generate_cache_key (rt\<lparr>cache_enabled := False\<rparr>) req uid = Inl x"
      by (simp add: uncached_same)
    show ?thesis
      by (simp add: flux_try_no_key [OF True Inl] flux_try_no_key [OF True k'])
  next
    case (Inr key)
    then have key': "generate_cache_key (rt\<lparr>cache_enabled := False\<rparr>) req uid = Inr key"
      by (simp add: uncached_same)
    have down: "s3_fault (s3 (snd (flux_check_rate_limit now w uid))) = Some e"
      using assms by (simp add: flux_check_rate_limit_frame)
    have off: "\<not> cache_enabled (rt\<lparr>cache_enabled := False\<rparr>)" by simp
    note l = flux_try_miss [OF True Inr probe_file_fault [OF down], where fr = fr]
    note r = flux_try_miss [OF True key' probe_disabled(2) [OF off], where fr = fr]
    show ?thesis
      using flux_call_result [of rt _ key]
      by (simp add: l r split: sum.splits)
  qed
qed

lemma chatterbox_store_down:
  assumes "s3_fault (s3 w) = Some e"
  shows "fst (chatterbox_try rt now w req uid fr)
           = fst (chatterbox_try (rt\<lparr>cache_enabled := False\<rparr>) now w req uid fr)"
proof (cases "fst (chatterbox_check_rate_limit now w uid)")
  case False
  then show ?thesis
    by (simp add: chatterbox_try_rate_limited)
next
  case True
  show ?thesis
  proof (cases "generate_cache_key rt req uid")
    case (Inl x)
    then have k': "generate_cache_key (rt\<lparr>cache_enabled := False\<rparr>) req uid = Inl x"
      by (simp add: uncached_same)
    show ?thesis
      by (simp add: chatterbox_try_no_key [OF True Inl] chatterbox_try_no_key [OF True k'])
  next
    case (Inr key)
    then have key': "generate_cache_key (rt\<lparr>cache_enabled := False\<rparr>) req uid = Inr key"
      by (simp add: uncached_same)
    have down: "s3_fault (s3 (snd (chatterbox_check_rate_limit now w uid))) = Some e"
      using assms by (simp add: chatterbox_check_rate_limit_frame)
    have off: "\<not> cache_enabled (rt\<lparr>cache_enabled := False\<rparr>)" by simp
    note l = chatterbox_try_miss [OF True Inr probe_file_fault [OF down], where fr = fr]
    note r = chatterbox_try_miss [OF True key' probe_disabled(2) [OF off], where fr = fr]
    show ?thesis
      using chatterbox_call_result [of rt _ key]
      by (simp add: l r uncached_same split: sum.splits)
  qed
qed

text \<open>
  C6. The four get and put methods of the cache manager never raise. Whatever exception
  the structured or the blob store raises during the call (the methods of the store
  managers raising, or the store itself being unreachable), a get returns \<^verbatim>\<open>None\<close> and a
  put returns normally, and the contents of the store are what they were. On the request
  path the failure is a cache miss and nothing more: with its store unreachable, every
  adapter returns for every request the result it returns with caching disabled.
\<close>

theorem cache_store_failures_swallowed:
  "(\<exists>v. fst (get_text_cache rt now w p k) = Inr v)
   \<and> (\<exists>v. fst (get_file_cache rt w p k) = Inr v)
   \<and> fst (set_text_cache rt now w p k req resp uid) = Inr ()
   \<and> fst (set_file_cache rt w p k data ct) = Inr ()
   \<and> (cache_enabled rt \<and> fst (get_cache rt now (pg w) p k) = Inl e \<longrightarrow>
        fst (get_text_cache rt now w p k) = Inr PNone
        \<and> tables (pg (snd (get_text_cache rt now w p k))) = tables (pg w))
   \<and> (cache_enabled rt \<and> fst (set_cache rt now (pg w) p k req resp uid) = Inl e \<longrightarrow>
        tables (pg (snd (set_text_cache rt now w p k req resp uid))) = tables (pg w))
   \<and> (cache_enabled rt \<and> fst (minio_get_file_cache (s3 w) p k) = Inl e \<longrightarrow>
        fst (get_file_cache rt w p k) = Inr PNone
        \<and> buckets (s3 (snd (get_file_cache rt w p k))) = buckets (s3 w))
   \<and> (cache_enabled rt \<and> fst (minio_set_file_cache (s3 w) p k data ct) = Inl e \<longrightarrow>
        buckets (s3 (snd (set_file_cache rt w p k data ct))) = buckets (s3 w))
   \<and> (db_fault (pg w) = Some e \<longrightarrow>
        fst (get_text_cache rt now w p k) = Inr PNone
        \<and> tables (pg (snd (get_text_cache rt now w p k))) = tables (pg w)
        \<and> tables (pg (snd (set_text_cache rt now w p k req resp uid))) = tables (pg w)
        \<and> fst (chatgpt_process_request rt now w req uid fr)
            = fst (chatgpt_process_request (rt\<lparr>cache_enabled := False\<rparr>) now w req uid fr))
   \<and> (s3_fault (s3 w) = Some e \<longrightarrow>
        fst (get_file_cache rt w p k) = Inr PNone
        \<and> buckets (s3 (snd (get_file_cache rt w p k))) = buckets (s3 w)
        \<and> buckets (s3 (snd (set_file_cache rt w p k data ct))) = buckets (s3 w)
        \<and> fst (flux_process_request rt now w req uid fr)
            = fst (flux_process_request (rt\<lparr>cache_enabled := False\<rparr>) now w req uid fr)
        \<and> fst (chatterbox_process_request rt now w req uid fr)
            = fst (chatterbox_process_request (rt\<lparr>cache_enabled := False\<rparr>) now w req uid fr))"
proof (intro conjI impI)
  show "\<exists>v. fst (get_text_cache rt now w p k) = Inr v" by (rule get_text_cache_returns)
  show "\<exists>v. fst (get_file_cache rt w p k) = Inr v" by (rule get_file_cache_returns)
  show "fst (set_text_cache rt now w p k req resp uid) = Inr ()" by (rule set_text_cache_returns)
  show "fst (set_file_cache rt w p k data ct) = Inr ()" by (rule set_file_cache_returns)
next
  assume "cache_enabled rt \<and> fst (get_cache rt now (pg w) p k) = Inl e"
  then show "fst (get_text_cache rt now w p k) = Inr PNone"
    and "tables (pg (snd (get_text_cache rt now w p k))) = tables (pg w)"
    using get_text_cache_swallows by blast+
next
  assume "cache_enabled rt \<and> fst (set_cache rt now (pg w) p k req resp uid) = Inl e"
  then show "tables (pg (snd (set_text_cache rt now w p k req resp uid))) = tables (pg w)"
    using set_text_cache_swallows by blast
next
  assume "cache_enabled rt \<and> fst (minio_get_file_cache (s3 w) p k) = Inl e"
  then show "fst (get_file_cache rt w p k) = Inr PNone"
    and "buckets (s3 (snd (get_file_cache rt w p k))) = buckets (s3 w)"
    using get_file_cache_swallows by blast+
next
  assume "cache_enabled rt \<and> fst (minio_set_file_cache (s3 w) p k data ct) = Inl e"
  then show "buckets (s3 (snd (set_file_cache rt w p k data ct))) = buckets (s3 w)"
    using set_file_cache_swallows by blast
next
  assume f: "db_fault (pg w) = Some e"
  show "fst (get_text_cache rt now w p k) = Inr PNone"
    using db_fault_get [OF f, of rt now p k]
    by (auto simp: get_text_cache_def split: prod.splits sum.splits)
  show "tables (pg (snd (get_text_cache rt now w p k))) = tables (pg w)"
    using db_fault_get [OF f, of rt now p k] get_cache_raises_tables [of rt now "pg w" p k e]
    by (auto simp: get_text_cache_def split: prod.splits sum.splits)
  show "tables (pg (snd (set_text_cache rt now w p k req resp uid))) = tables (pg w)"
    using db_fault_set [OF f, of rt now p k req resp uid]
      set_cache_raises_tables [of rt now "pg w" p k req resp uid e]
    by (auto simp: set_text_cache_def split: prod.splits sum.splits)
  show "fst (chatgpt_process_request rt now w req uid fr)
            = fst (chatgpt_process_request (rt\<lparr>cache_enabled := False\<rparr>) now w req uid fr)"
    using chatgpt_store_down [OF f, of rt now req uid fr]
    by (simp add: chatgpt_process_request_fst)
next
  assume f: "s3_fault (s3 w) = Some e"
  show "fst (get_file_cache rt w p k) = Inr PNone"
    by (rule s3_fault_get_file_cache [OF f])
  show "buckets (s3 (snd (get_file_cache rt w p k))) = buckets (s3 w)"
    using minio_get_buckets [of "s3 w" p k]
    by (auto simp: get_file_cache_def split: prod.splits sum.splits)
  show "buckets (s3 (snd (set_file_cache rt w p k data ct))) = buckets (s3 w)"
    using s3_fault_set [OF f, of p k data ct]
      minio_set_raises_buckets [of "s3 w" p k data ct e]
    by (auto simp: set_file_cache_def split: prod.splits sum.splits)
  show "fst (flux_process_request rt now w req uid fr)
            = fst (flux_process_request (rt\<lparr>cache_enabled := False\<rparr>) now w req uid fr)"
    using flux_store_down [OF f, of rt now req uid fr]
    by (simp add: flux_process_request_fst)
  show "fst (chatterbox_process_request rt now w req uid fr)
            = fst (chatterbox_process_request (rt\<lparr>cache_enabled := False\<rparr>) now w req uid fr)"
    using chatterbox_store_down [OF f, of rt now req uid fr]
    by (simp add: chatterbox_process_request_fst)
qed


theorem cache_store_failures_swallowed_witness:
  "cache_enabled test_runtime
   \<and> db_fault (pg test_world_down) = Some (OtherException ''connection refused'')
   \<and> s3_fault (s3 test_world_down) = Some (S3Error ''SlowDown'' ''reduce your request rate'')
   \<and> fst (get_text_cache test_runtime 5 test_world_down ''chatgpt'' ''k1'') = Inr PNone
   \<and> fst (set_text_cache test_runtime 5 test_world_down ''chatgpt'' ''k1''
             [(''prompt'', PStr ''hello'')] [(''response'', PStr ''one'')] ''u1'') = Inr ()
   \<and> tables (pg (snd (set_text_cache test_runtime 5 test_world_down ''chatgpt'' ''k1''
             [(''prompt'', PStr ''hello'')] [(''response'', PStr ''one'')] ''u1'')))
        = tables (pg test_world_down)
   \<and> fst (get_file_cache test_runtime test_world_down ''chatterbox'' ''k1'') = Inr PNone
   \<and> fst (set_file_cache test_runtime test_world_down ''chatterbox'' ''k1'' ''RIFF'' ''audio/wav'')
        = Inr ()
   \<and> buckets (s3 (snd (set_file_cache test_runtime test_world_down ''chatterbox'' ''k1''
             ''RIFF'' ''audio/wav''))) = buckets (s3 test_world_down)"
proof -
  have h0: "cache_enabled test_runtime" by (simp add: test_runtime_def)
  have h1: "db_fault (pg test_world_down) = Some (OtherException ''connection refused'')"
    by (simp add: test_world_down_def)
  have h2: "s3_fault (s3 test_world_down) = Some (S3Error ''SlowDown'' ''reduce your request rate'')"
    by (simp add: test_world_down_def)
  show ?thesis
    using h0 h1 h2
      cache_store_failures_swallowed [of test_runtime 5 test_world_down "''chatgpt''" "''k1''"
        "[(''prompt'', PStr ''hello'')]" "[(''response'', PStr ''one'')]" "''u1''"
        "''RIFF''" "''audio/wav''" "OtherException ''connection refused''"]
      cache_store_failures_swallowed [of test_runtime 5 test_world_down "''chatterbox''" "''k1''"
        "[(''prompt'', PStr ''hello'')]" "[(''response'', PStr ''one'')]" "''u1''"
        "''RIFF''" "''audio/wav''" "S3Error ''SlowDown'' ''reduce your request rate''"]
    by blast
qed

end
